theory Spec2Isabelle
  imports Complex_Main
begin

section \<open>AnswerFinder: the matching subsystem\<close>

text \<open>
  A shallow embedding of the JavaScript sources of the matching subsystem: the query
  cache (\<^verbatim>\<open>lib/storage/cache-manager.js\<close>), the confidence calculator, the tier
  matchers, the matching engine, the question classifier, the text normalizer and the
  keyword extractor.

  Conventions of the embedding.
  \<^item> A JavaScript string is a \<^typ>\<open>string\<close>; the development covers ASCII text, one
    \<^typ>\<open>char\<close> per UTF-16 code unit. On ASCII text \<^verbatim>\<open>String.prototype.normalize\<close>
    is the identity and \<^verbatim>\<open>toLowerCase\<close> maps \<^verbatim>\<open>A-Z\<close> to \<^verbatim>\<open>a-z\<close>.
  \<^item> A JavaScript number that is known to be finite is a \<^typ>\<open>real\<close>; where the code can
    produce \<^verbatim>\<open>NaN\<close> the type \<open>jsnum\<close> below carries it.
  \<^item> \<^verbatim>\<open>Date.now()\<close> is an \<^typ>\<open>int\<close> (milliseconds) handed to each operation that
    reads the clock.
  \<^item> \<^verbatim>\<open>null\<close> and \<^verbatim>\<open>undefined\<close> results are \<^const>\<open>None\<close>.
\<close>

section \<open>Query cache (\<^verbatim>\<open>lib/storage/cache-manager.js\<close>)\<close>

subsection \<open>The built-in \<^verbatim>\<open>Map\<close>: an insertion-ordered association list\<close>

text \<open>
  A JavaScript \<^verbatim>\<open>Map\<close> iterates its keys in insertion order. \<^verbatim>\<open>Map.set\<close> on a key
  that is present replaces the value and keeps the position; on a new key it appends.
\<close>

type_synonym ('k, 'v) jsmap = "('k \<times> 'v) list"

definition Map_has :: "('k, 'v) jsmap \<Rightarrow> 'k \<Rightarrow> bool" where
  "Map_has m k = (map_of m k \<noteq> None)"

definition Map_get :: "('k, 'v) jsmap \<Rightarrow> 'k \<Rightarrow> 'v option" where
  "Map_get m k = map_of m k"

definition Map_delete :: "('k, 'v) jsmap \<Rightarrow> 'k \<Rightarrow> ('k, 'v) jsmap" where
  "Map_delete m k = filter (\<lambda>p. fst p \<noteq> k) m"

fun Map_set :: "('k, 'v) jsmap \<Rightarrow> 'k \<Rightarrow> 'v \<Rightarrow> ('k, 'v) jsmap" where
  "Map_set [] k v = [(k, v)]"
| "Map_set (p # ps) k v = (if fst p = k then (k, v) # ps else p # Map_set ps k v)"

definition Map_size :: "('k, 'v) jsmap \<Rightarrow> nat" where
  "Map_size m = length m"

text \<open>\<^verbatim>\<open>m.keys().next().value\<close>: the oldest key, \<^verbatim>\<open>undefined\<close> on an empty map.\<close>

definition Map_first_key :: "('k, 'v) jsmap \<Rightarrow> 'k option" where
  "Map_first_key m = (case m of [] \<Rightarrow> None | p # _ \<Rightarrow> Some (fst p))"

text \<open>No two entries of a \<^verbatim>\<open>Map\<close> share a key.\<close>

definition Map_ok :: "('k, 'v) jsmap \<Rightarrow> bool" where
  "Map_ok m = distinct (map fst m)"

subsection \<open>\<^verbatim>\<open>class LRUCache\<close>\<close>

record 'v entry =
  val :: 'v
  timestamp :: int

record 'v LRUCache =
  maxSize :: int
  ttl :: int
  cache :: "(string, 'v entry) jsmap"

definition new_LRUCache :: "int \<Rightarrow> int \<Rightarrow> 'v LRUCache" where
  "new_LRUCache ms t = \<lparr>maxSize = ms, ttl = t, cache = []\<rparr>"

text \<open>
  \<^verbatim>\<open>get(key)\<close> at clock reading \<open>now\<close>: the value read (\<^const>\<open>None\<close> for
  \<^verbatim>\<open>null\<close>) and the cache afterwards. An expired entry is deleted; a live one is
  moved to the end.
\<close>

definition LRUCache_get :: "'v LRUCache \<Rightarrow> string \<Rightarrow> int \<Rightarrow> 'v option \<times> 'v LRUCache" where
  "LRUCache_get c key now =
     (case Map_get (cache c) key of
        None \<Rightarrow> (None, c)
      | Some e \<Rightarrow>
          if now - timestamp e > ttl c
          then (None, c\<lparr>cache := Map_delete (cache c) key\<rparr>)
          else (Some (val e), c\<lparr>cache := Map_set (Map_delete (cache c) key) key e\<rparr>))"

text \<open>
  \<^verbatim>\<open>set(key, value)\<close> at clock reading \<open>now\<close>. The key is deleted first when
  present; then, when the size has reached \<open>maxSize\<close>, the first key is deleted
  (\<^verbatim>\<open>delete(undefined)\<close> on an empty map removes nothing); then the entry is added.
\<close>

definition LRUCache_set :: "'v LRUCache \<Rightarrow> string \<Rightarrow> 'v \<Rightarrow> int \<Rightarrow> 'v LRUCache" where
  "LRUCache_set c key v now =
     (let m1 = (if Map_has (cache c) key then Map_delete (cache c) key else cache c);
          m2 = (if int (Map_size m1) \<ge> maxSize c
                then (case Map_first_key m1 of None \<Rightarrow> m1 | Some firstKey \<Rightarrow> Map_delete m1 firstKey)
                else m1)
      in c\<lparr>cache := Map_set m2 key \<lparr>val = v, timestamp = now\<rparr>\<rparr>)"

definition LRUCache_has :: "'v LRUCache \<Rightarrow> string \<Rightarrow> int \<Rightarrow> bool \<times> 'v LRUCache" where
  "LRUCache_has c key now = (case LRUCache_get c key now of (r, c') \<Rightarrow> (r \<noteq> None, c'))"

definition LRUCache_clear :: "'v LRUCache \<Rightarrow> 'v LRUCache" where
  "LRUCache_clear c = c\<lparr>cache := []\<rparr>"

definition LRUCache_size :: "'v LRUCache \<Rightarrow> nat" where
  "LRUCache_size c = Map_size (cache c)"

text \<open>A caller's operations on one cache, each with the clock reading it sees.\<close>

datatype 'v cache_op = Get string int | Set string 'v int | Clear

fun apply_cache_op :: "'v LRUCache \<Rightarrow> 'v cache_op \<Rightarrow> 'v LRUCache" where
  "apply_cache_op c (Get k now) = snd (LRUCache_get c k now)"
| "apply_cache_op c (Set k v now) = LRUCache_set c k v now"
| "apply_cache_op c Clear = LRUCache_clear c"

fun run_cache_ops :: "'v LRUCache \<Rightarrow> 'v cache_op list \<Rightarrow> 'v LRUCache" where
  "run_cache_ops c [] = c"
| "run_cache_ops c (x # xs) = run_cache_ops (apply_cache_op c x) xs"


section \<open>Constants (\<^verbatim>\<open>lib/utils/constants.js\<close>)\<close>

datatype matchType = EXACT | KEYWORD | FUZZY | PARTIAL | AI | NONE

definition CONFIDENCE_THRESHOLDS_EXACT :: real where "CONFIDENCE_THRESHOLDS_EXACT = 1.0"
definition CONFIDENCE_THRESHOLDS_HIGH :: real where "CONFIDENCE_THRESHOLDS_HIGH = 0.85"
definition CONFIDENCE_THRESHOLDS_MEDIUM :: real where "CONFIDENCE_THRESHOLDS_MEDIUM = 0.60"
definition CONFIDENCE_THRESHOLDS_LOW :: real where "CONFIDENCE_THRESHOLDS_LOW = 0.30"

definition KEYWORD_MIN_OVERLAP :: real where "KEYWORD_MIN_OVERLAP = 0.75"
definition KEYWORD_MIN_CONFIDENCE :: real where "KEYWORD_MIN_CONFIDENCE = 0.75"
definition KEYWORD_MAX_CONFIDENCE :: real where "KEYWORD_MAX_CONFIDENCE = 0.95"
definition FUZZY_MIN_SIMILARITY :: real where "FUZZY_MIN_SIMILARITY = 0.85"
definition FUZZY_MIN_CONFIDENCE :: real where "FUZZY_MIN_CONFIDENCE = 0.60"
definition FUZZY_MAX_CONFIDENCE :: real where "FUZZY_MAX_CONFIDENCE = 0.80"
definition FUZZY_MAX_CANDIDATES :: nat where "FUZZY_MAX_CANDIDATES = 50"
definition PARTIAL_MIN_SCORE :: real where "PARTIAL_MIN_SCORE = 0.50"
definition PARTIAL_MIN_CONFIDENCE :: real where "PARTIAL_MIN_CONFIDENCE = 0.30"
definition PARTIAL_MAX_CONFIDENCE :: real where "PARTIAL_MAX_CONFIDENCE = 0.60"
definition MAX_QUERY_LENGTH :: nat where "MAX_QUERY_LENGTH = 500"
definition MIN_QUERY_LENGTH :: nat where "MIN_QUERY_LENGTH = 3"

definition MAX_KEYWORDS :: nat where "MAX_KEYWORDS = 50"
definition MIN_KEYWORD_LENGTH :: nat where "MIN_KEYWORD_LENGTH = 3"
definition MAX_KEYWORD_LENGTH :: nat where "MAX_KEYWORD_LENGTH = 50"
definition IMPORTANCE_THRESHOLD :: real where "IMPORTANCE_THRESHOLD = 0.1"

datatype keywordType = ENTITY | TECHNICAL | COMMON | STOPWORD


section \<open>Confidence calculator (\<^verbatim>\<open>lib/matching/confidence-calculator.js\<close>)\<close>

text \<open>
  The \<^verbatim>\<open>context\<close> argument; its lengths are lengths of strings or of keyword lists.
  The \<^verbatim>\<open>questionType\<close> field is read and never used.
\<close>

record matchContext =
  queryLength :: nat
  questionLength :: nat

definition scaleScore :: "real \<Rightarrow> real \<Rightarrow> real \<Rightarrow> real" where
  "scaleScore score mn mx = mn + (score * (mx - mn))"

text \<open>
  \<^verbatim>\<open>lengthRatio < 0.7\<close>, where \<^verbatim>\<open>lengthRatio\<close> is
  \<^verbatim>\<open>Math.min(q, l) / Math.max(q, l)\<close>. With both lengths \<open>0\<close> the ratio is
  \<^verbatim>\<open>0 / 0 = NaN\<close> and the comparison is false.
\<close>

definition lengthRatio_below :: "matchContext \<Rightarrow> bool" where
  "lengthRatio_below ctx =
     (max (queryLength ctx) (questionLength ctx) \<noteq> 0 \<and>
      real (min (queryLength ctx) (questionLength ctx)) /
        real (max (queryLength ctx) (questionLength ctx)) < 0.7)"

definition calculateConfidence :: "matchType \<Rightarrow> real \<Rightarrow> matchContext \<Rightarrow> real" where
  "calculateConfidence mt rawScore ctx =
     (let confidence =
        (case mt of
           EXACT \<Rightarrow> CONFIDENCE_THRESHOLDS_EXACT
         | KEYWORD \<Rightarrow>
             (let c = scaleScore rawScore KEYWORD_MIN_CONFIDENCE KEYWORD_MAX_CONFIDENCE
              in if queryLength ctx > 50 then min (c * 1.1) 1.0 else c)
         | FUZZY \<Rightarrow>
             (let c = scaleScore rawScore FUZZY_MIN_CONFIDENCE FUZZY_MAX_CONFIDENCE
              in if lengthRatio_below ctx then c * 0.9 else c)
         | PARTIAL \<Rightarrow>
             scaleScore rawScore PARTIAL_MIN_CONFIDENCE PARTIAL_MAX_CONFIDENCE * 0.8
         | AI \<Rightarrow> rawScore
         | NONE \<Rightarrow> 0)
      in max 0 (min 1 confidence))"

datatype confidenceLevel = HIGH | MEDIUM | LOW | NO_LEVEL

definition getConfidenceLevel :: "real \<Rightarrow> confidenceLevel" where
  "getConfidenceLevel confidence =
     (if confidence \<ge> CONFIDENCE_THRESHOLDS_HIGH then HIGH
      else if confidence \<ge> CONFIDENCE_THRESHOLDS_MEDIUM then MEDIUM
      else if confidence \<ge> CONFIDENCE_THRESHOLDS_LOW then LOW
      else NO_LEVEL)"

definition isAcceptableConfidence :: "real \<Rightarrow> real \<Rightarrow> bool" where
  "isAcceptableConfidence confidence threshold = (confidence \<ge> threshold)"

section \<open>JavaScript numbers that may be \<^verbatim>\<open>NaN\<close>\<close>

text \<open>
  Arithmetic and comparison as JavaScript has them on numbers: an operation on
  \<^verbatim>\<open>NaN\<close> gives \<^verbatim>\<open>NaN\<close>, and every comparison with \<^verbatim>\<open>NaN\<close> is false. The
  embedded code divides by non-zero numbers only (each division is guarded or has a
  positive divisor), so the division below leaves \<^verbatim>\<open>x / 0\<close> (an infinity in
  JavaScript) out and returns \<^verbatim>\<open>NaN\<close> there.
\<close>

datatype jsnum = Num real | NaN

fun js_add :: "jsnum \<Rightarrow> jsnum \<Rightarrow> jsnum" where
  "js_add (Num a) (Num b) = Num (a + b)"
| "js_add _ _ = NaN"

fun js_mul :: "jsnum \<Rightarrow> jsnum \<Rightarrow> jsnum" where
  "js_mul (Num a) (Num b) = Num (a * b)"
| "js_mul _ _ = NaN"

fun js_div :: "jsnum \<Rightarrow> jsnum \<Rightarrow> jsnum" where
  "js_div (Num a) (Num b) = (if b = 0 then NaN else Num (a / b))"
| "js_div _ _ = NaN"

fun js_sub :: "jsnum \<Rightarrow> jsnum \<Rightarrow> jsnum" where
  "js_sub (Num a) (Num b) = Num (a - b)"
| "js_sub _ _ = NaN"

fun js_min :: "jsnum \<Rightarrow> jsnum \<Rightarrow> jsnum" where
  "js_min (Num a) (Num b) = Num (min a b)"
| "js_min _ _ = NaN"

fun js_gt :: "jsnum \<Rightarrow> jsnum \<Rightarrow> bool" where
  "js_gt (Num a) (Num b) = (a > b)"
| "js_gt _ _ = False"

fun js_lt :: "jsnum \<Rightarrow> jsnum \<Rightarrow> bool" where
  "js_lt (Num a) (Num b) = (a < b)"
| "js_lt _ _ = False"

fun js_ge :: "jsnum \<Rightarrow> jsnum \<Rightarrow> bool" where
  "js_ge (Num a) (Num b) = (a \<ge> b)"
| "js_ge _ _ = False"

section \<open>The built-in \<^verbatim>\<open>Set\<close> and the \<^verbatim>\<open>Map\<close> constructor\<close>

text \<open>A \<^verbatim>\<open>Set\<close> keeps its elements in insertion order, each once.\<close>

definition Set_has :: "'a list \<Rightarrow> 'a \<Rightarrow> bool" where
  "Set_has s x = (x \<in> set s)"

definition Set_add :: "'a list \<Rightarrow> 'a \<Rightarrow> 'a list" where
  "Set_add s x = (if Set_has s x then s else s @ [x])"

definition new_Set :: "'a list \<Rightarrow> 'a list" where
  "new_Set xs = foldl Set_add [] xs"

definition new_Map :: "('k \<times> 'v) list \<Rightarrow> ('k, 'v) jsmap" where
  "new_Map entries = foldl (\<lambda>m (k, v). Map_set m k v) [] entries"

section \<open>Documents and the document store\<close>

record keyword =
  word :: string
  importance :: jsnum
  ktype :: keywordType

text \<open>
  A stored question (\<^verbatim>\<open>QuestionSchema\<close> in \<^verbatim>\<open>lib/storage/schema.js\<close>), with the fields
  the matchers read.
\<close>

record question =
  qid :: string
  original_question :: string
  original_answer :: string
  normalizedQuestion :: string
  processed_keywords :: "keyword list"

text \<open>
  The IndexedDB object store is outside the repository's code: a \<open>database\<close> gives what
  its three read requests answer (\<^verbatim>\<open>index.get\<close> on the normalized-question index,
  \<^verbatim>\<open>index.getAll\<close> on the keyword index, \<^verbatim>\<open>store.getAll\<close>). The methods of
  \<^verbatim>\<open>IndexedDBManager\<close> (\<^verbatim>\<open>lib/storage/indexeddb-manager.js\<close>) are modelled for
  requests that succeed.
\<close>

record database =
  index_normalizedQuestion_get :: "string \<Rightarrow> question option"
  index_keywords_getAll :: "string \<Rightarrow> question list"
  store_getAll :: "question list"

definition getQuestionByNormalizedText :: "database \<Rightarrow> string \<Rightarrow> question option" where
  "getQuestionByNormalizedText db normalizedText = index_normalizedQuestion_get db normalizedText"

definition getQuestionsByKeyword :: "database \<Rightarrow> string \<Rightarrow> question list" where
  "getQuestionsByKeyword db kw = index_keywords_getAll db kw"

definition getQuestionsByKeywords :: "database \<Rightarrow> string list \<Rightarrow> question list" where
  "getQuestionsByKeywords db kws =
     map snd (foldl (\<lambda>questionMap kw.
                 foldl (\<lambda>m q. Map_set m (qid q) q) questionMap (getQuestionsByKeyword db kw))
               [] kws)"

definition getAllQuestions :: "database \<Rightarrow> question list" where
  "getAllQuestions db = store_getAll db"

definition getStats_totalQuestions :: "database \<Rightarrow> nat" where
  "getStats_totalQuestions db = length (getAllQuestions db)"

section \<open>Tier 2: keyword matcher (\<^verbatim>\<open>lib/matching/keyword-matcher.js\<close>)\<close>

text \<open>\<^verbatim>\<open>jaccardSimilarity\<close> of \<^verbatim>\<open>lib/utils/string-utils.js\<close>, on two \<^verbatim>\<open>Set\<close>s.\<close>

definition jaccardSimilarity :: "'a list \<Rightarrow> 'a list \<Rightarrow> real" where
  "jaccardSimilarity set1 set2 =
     (let intersection = new_Set (filter (Set_has set2) set1);
          union = new_Set (set1 @ set2)
      in if length union = 0 then 0.0 else real (length intersection) / real (length union))"

definition calculateImportanceBoost :: "keyword list \<Rightarrow> keyword list \<Rightarrow> jsnum" where
  "calculateImportanceBoost queryKeywords candidateKeywords =
     (let queryMap = new_Map (map (\<lambda>kw. (word kw, importance kw)) queryKeywords);
          candidateMap = new_Map (map (\<lambda>kw. (word kw, importance kw)) candidateKeywords);
          (totalImportance, matchedImportance) =
             foldl (\<lambda>(total, matched) (w, imp).
                      (js_add total imp,
                       if Map_has candidateMap w then js_add matched imp else matched))
                   (Num 0, Num 0) queryMap
      in if js_gt totalImportance (Num 0) then js_div matchedImportance totalImportance else Num 0)"

definition getMatchedKeywords :: "string list \<Rightarrow> string list \<Rightarrow> string list" where
  "getMatchedKeywords queryKeywords candidateKeywords =
     (let candidateSet = new_Set candidateKeywords in filter (Set_has candidateSet) queryKeywords)"

text \<open>
  The result object of a tier matcher. The \<^verbatim>\<open>explanation\<close> text is a display string
  computed from the other fields and is left out.
\<close>

record matchResult =
  question :: question
  matchType :: matchType
  confidence :: real
  rawScore :: real
  metadata_tier :: nat
  metadata_method :: string
  candidatesEvaluated :: "nat option"
  matchedKeywords :: "string list option"

text \<open>
  One round of the scoring loop. \<^verbatim>\<open>weightedScore > bestScore\<close> is false when the
  weighted score is \<^verbatim>\<open>NaN\<close>, so the best score is always a finite number.
\<close>

definition keywordMatch_step ::
  "keyword list \<Rightarrow> question option \<times> real \<Rightarrow> question \<Rightarrow> question option \<times> real" where
  "keywordMatch_step queryKeywords best candidate =
     (let queryKeywordStrings = map word queryKeywords;
          candidateKeywords = map word (processed_keywords candidate);
          querySet = new_Set queryKeywordStrings;
          candidateSet = new_Set candidateKeywords;
          similarity = jaccardSimilarity querySet candidateSet;
          importanceBoost = calculateImportanceBoost queryKeywords (processed_keywords candidate);
          weightedScore = js_mul (Num similarity) (js_add (Num 1) (js_mul importanceBoost (Num 0.2)))
      in case weightedScore of
           Num w \<Rightarrow> if w > snd best then (Some candidate, w) else best
         | NaN \<Rightarrow> best)"

text \<open>
  \<^verbatim>\<open>keywordMatch(queryKeywords, dbManager)\<close>. A best score of at least the minimum
  overlap is positive, so it was assigned together with \<^verbatim>\<open>bestMatch\<close>; the branch
  where \<^verbatim>\<open>bestMatch\<close> is still \<^verbatim>\<open>null\<close> there is never taken.
\<close>

definition keywordMatch :: "keyword list \<Rightarrow> database \<Rightarrow> matchResult option" where
  "keywordMatch queryKeywords db =
     (if queryKeywords = [] then None
      else
        let queryKeywordStrings = map word queryKeywords;
            candidates = getQuestionsByKeywords db queryKeywordStrings
        in if candidates = [] then None
           else
             let best = foldl (keywordMatch_step queryKeywords) (None, 0) candidates;
                 bestScore = snd best
             in if bestScore < KEYWORD_MIN_OVERLAP then None
                else
                  (case fst best of
                     None \<Rightarrow> None
                   | Some bestMatch \<Rightarrow>
                       Some \<lparr>question = bestMatch,
                             matchType = KEYWORD,
                             confidence = calculateConfidence KEYWORD bestScore
                               \<lparr>queryLength = length queryKeywordStrings,
                                questionLength = length (processed_keywords bestMatch)\<rparr>,
                             rawScore = bestScore,
                             metadata_tier = 2,
                             metadata_method = ''keyword_jaccard'',
                             candidatesEvaluated = Some (length candidates),
                             matchedKeywords = Some (getMatchedKeywords queryKeywordStrings
                               (map word (processed_keywords bestMatch)))\<rparr>))"

section \<open>Strings and regular expressions\<close>

subsection \<open>Character classes on ASCII text\<close>

definition lowercase_letters :: string where
  "lowercase_letters = ''abcdefghijklmnopqrstuvwxyz''"

definition uppercase_letters :: string where
  "uppercase_letters = ''ABCDEFGHIJKLMNOPQRSTUVWXYZ''"

definition decimal_digits :: string where
  "decimal_digits = ''0123456789''"

text \<open>\<^verbatim>\<open>\s\<close>: tab, line feed, vertical tab, form feed, carriage return, space.\<close>

definition is_space :: "char \<Rightarrow> bool" where
  "is_space c = (c \<in> set [CHR 0x09, CHR 0x0A, CHR 0x0B, CHR 0x0C, CHR 0x0D, CHR '' ''])"

text \<open>\<^verbatim>\<open>\d\<close> and \<^verbatim>\<open>\w\<close>.\<close>

definition is_digit :: "char \<Rightarrow> bool" where
  "is_digit c = (c \<in> set decimal_digits)"

definition is_word :: "char \<Rightarrow> bool" where
  "is_word c = (c \<in> set (lowercase_letters @ uppercase_letters @ decimal_digits @ ''_''))"

text \<open>Line terminators: what \<^verbatim>\<open>.\<close> does not match and what \<^verbatim>\<open>^\<close> looks for under the \<^verbatim>\<open>m\<close> flag.\<close>

definition is_line_terminator :: "char \<Rightarrow> bool" where
  "is_line_terminator c = (c \<in> set [CHR 0x0A, CHR 0x0D])"

definition toLowerCase_char :: "char \<Rightarrow> char" where
  "toLowerCase_char c =
     (case map_of (zip uppercase_letters lowercase_letters) c of Some d \<Rightarrow> d | None \<Rightarrow> c)"

definition toUpperCase_char :: "char \<Rightarrow> char" where
  "toUpperCase_char c =
     (case map_of (zip lowercase_letters uppercase_letters) c of Some d \<Rightarrow> d | None \<Rightarrow> c)"

definition toLowerCase :: "string \<Rightarrow> string" where
  "toLowerCase s = map toLowerCase_char s"

definition toUpperCase :: "string \<Rightarrow> string" where
  "toUpperCase s = map toUpperCase_char s"

subsection \<open>String methods\<close>

definition trim :: "string \<Rightarrow> string" where
  "trim s = rev (dropWhile is_space (rev (dropWhile is_space s)))"

definition startsWith :: "string \<Rightarrow> string \<Rightarrow> bool" where
  "startsWith s sub = (take (length sub) s = sub)"

fun String_includes :: "string \<Rightarrow> string \<Rightarrow> bool" where
  "String_includes [] sub = (sub = [])"
| "String_includes (x # xs) sub = (startsWith (x # xs) sub \<or> String_includes xs sub)"

text \<open>
  \<^verbatim>\<open>s.split(/\s+/)\<close>: the pieces between the maximal runs of whitespace; a string that
  begins or ends with whitespace gives an empty first or last piece, and the empty
  string gives one empty piece.
\<close>

function split_whitespace_from :: "string \<Rightarrow> string \<Rightarrow> string list" where
  "split_whitespace_from cur [] = [rev cur]"
| "split_whitespace_from cur (x # xs) =
     (if is_space x then rev cur # split_whitespace_from [] (dropWhile is_space xs)
      else split_whitespace_from (x # cur) xs)"
  by pat_completeness auto
termination
  by (relation "measure (\<lambda>(cur, s). length s)")
     (auto simp: le_imp_less_Suc length_dropWhile_le)

definition split_whitespace :: "string \<Rightarrow> string list" where
  "split_whitespace s = split_whitespace_from [] s"

text \<open>\<^verbatim>\<open>s.split(' ')\<close>: the pieces between single spaces.\<close>

fun split_space_from :: "string \<Rightarrow> string \<Rightarrow> string list" where
  "split_space_from cur [] = [rev cur]"
| "split_space_from cur (x # xs) =
     (if x = CHR '' '' then rev cur # split_space_from [] xs
      else split_space_from (x # cur) xs)"

definition split_space :: "string \<Rightarrow> string list" where
  "split_space s = split_space_from [] s"

text \<open>\<^verbatim>\<open>words.join(' ')\<close>.\<close>

fun join_space :: "string list \<Rightarrow> string" where
  "join_space [] = []"
| "join_space [w] = w"
| "join_space (w # ws) = w @ '' '' @ join_space ws"

subsection \<open>The regular expressions the sources use\<close>

text \<open>
  A regular expression is a list of alternatives, each a sequence of items: a literal,
  a character class taken once, one or more times (\<^verbatim>\<open>+\<close>) or any number of times
  (\<^verbatim>\<open>*\<close>), and the assertions \<^verbatim>\<open>^\<close>, \<^verbatim>\<open>$\<close> and \<^verbatim>\<open>\b\<close>. The quantifiers are greedy
  and backtrack, and the alternatives are tried in order, as in JavaScript. Capture
  groups are never read by the sources and are left out. Under the \<^verbatim>\<open>i\<close> flag a
  literal is compared in lower case, and a class matches a character when it holds the
  character in either case (the one negated class used under that flag, \<^verbatim>\<open>[^.!?]\<close>,
  holds no letter). The matcher works at a position of the text, given as the reversed
  text \<open>pre\<close> before it and the text \<open>post\<close> from it on, and returns the number of
  characters the first successful match consumes.
\<close>

datatype rx_item =
    Lit string
  | One "char \<Rightarrow> bool"
  | Plus "char \<Rightarrow> bool"
  | Star "char \<Rightarrow> bool"
  | Bol
  | Eol
  | WordB

record regexp =
  alternatives :: "rx_item list list"
  ignoreCase :: bool
  multiline :: bool

definition class_matches :: "bool \<Rightarrow> (char \<Rightarrow> bool) \<Rightarrow> char \<Rightarrow> bool" where
  "class_matches ic P c = (P c \<or> (ic \<and> (P (toLowerCase_char c) \<or> P (toUpperCase_char c))))"

definition literal_matches :: "bool \<Rightarrow> string \<Rightarrow> string \<Rightarrow> bool" where
  "literal_matches ic lit s =
     (if ic then toLowerCase (take (length lit) s) = toLowerCase lit
      else take (length lit) s = lit)"

definition at_word_boundary :: "string \<Rightarrow> string \<Rightarrow> bool" where
  "at_word_boundary pre post =
     ((pre \<noteq> [] \<and> is_word (hd pre)) \<noteq> (post \<noteq> [] \<and> is_word (hd post)))"

function rx_match_seq ::
  "bool \<Rightarrow> bool \<Rightarrow> rx_item list \<Rightarrow> string \<Rightarrow> string \<Rightarrow> nat \<Rightarrow> nat option" where
  "rx_match_seq ic ml [] pre post n = Some n"
| "rx_match_seq ic ml (Lit s # r) pre post n =
     (if literal_matches ic s post
      then rx_match_seq ic ml r (rev (take (length s) post) @ pre) (drop (length s) post)
             (n + length s)
      else None)"
| "rx_match_seq ic ml (One P # r) pre post n =
     (case post of
        [] \<Rightarrow> None
      | x # xs \<Rightarrow> if class_matches ic P x then rx_match_seq ic ml r (x # pre) xs (Suc n) else None)"
| "rx_match_seq ic ml (Plus P # r) pre post n =
     (case post of
        [] \<Rightarrow> None
      | x # xs \<Rightarrow>
          if class_matches ic P x then rx_match_seq ic ml (Star P # r) (x # pre) xs (Suc n)
          else None)"
| "rx_match_seq ic ml (Star P # r) pre post n =
     (case post of
        [] \<Rightarrow> rx_match_seq ic ml r pre post n
      | x # xs \<Rightarrow>
          if class_matches ic P x
          then (case rx_match_seq ic ml (Star P # r) (x # pre) xs (Suc n) of
                  Some k \<Rightarrow> Some k
                | None \<Rightarrow> rx_match_seq ic ml r pre post n)
          else rx_match_seq ic ml r pre post n)"
| "rx_match_seq ic ml (Bol # r) pre post n =
     (if pre = [] \<or> (ml \<and> is_line_terminator (hd pre))
      then rx_match_seq ic ml r pre post n else None)"
| "rx_match_seq ic ml (Eol # r) pre post n =
     (if post = [] \<or> (ml \<and> is_line_terminator (hd post))
      then rx_match_seq ic ml r pre post n else None)"
| "rx_match_seq ic ml (WordB # r) pre post n =
     (if at_word_boundary pre post then rx_match_seq ic ml r pre post n else None)"
  by pat_completeness auto
termination
  by (relation "measures [\<lambda>(ic, ml, r, pre, post, n). length post,
                          \<lambda>(ic, ml, r, pre, post, n). length r]")
     auto

fun rx_match_alts ::
  "bool \<Rightarrow> bool \<Rightarrow> rx_item list list \<Rightarrow> string \<Rightarrow> string \<Rightarrow> nat option" where
  "rx_match_alts ic ml [] pre post = None"
| "rx_match_alts ic ml (a # as) pre post =
     (case rx_match_seq ic ml a pre post 0 of
        Some n \<Rightarrow> Some n
      | None \<Rightarrow> rx_match_alts ic ml as pre post)"

definition rx_match_at :: "regexp \<Rightarrow> string \<Rightarrow> string \<Rightarrow> nat option" where
  "rx_match_at re pre post =
     rx_match_alts (ignoreCase re) (multiline re) (alternatives re) pre post"

text \<open>\<^verbatim>\<open>text.match(re)\<close> without the \<^verbatim>\<open>g\<close> flag: the leftmost match, as the matched text.\<close>

fun rx_find_from :: "regexp \<Rightarrow> string \<Rightarrow> string \<Rightarrow> string option" where
  "rx_find_from re pre [] =
     (case rx_match_at re pre [] of Some n \<Rightarrow> Some [] | None \<Rightarrow> None)"
| "rx_find_from re pre (x # xs) =
     (case rx_match_at re pre (x # xs) of
        Some n \<Rightarrow> Some (take n (x # xs))
      | None \<Rightarrow> rx_find_from re (x # pre) xs)"

definition rx_exec :: "regexp \<Rightarrow> string \<Rightarrow> string option" where
  "rx_exec re s = rx_find_from re [] s"

text \<open>\<^verbatim>\<open>re.test(text)\<close> for a regular expression without the \<^verbatim>\<open>g\<close> flag.\<close>

definition rx_test :: "regexp \<Rightarrow> string \<Rightarrow> bool" where
  "rx_test re s = (rx_exec re s \<noteq> None)"

text \<open>
  \<^verbatim>\<open>text.replace(re, replacement)\<close> with the \<^verbatim>\<open>g\<close> flag, for a replacement without
  \<^verbatim>\<open>$\<close>: every match, from left to right, the search resuming where the last match
  ended (one character further post an empty match).
\<close>

fun rx_replace_from :: "regexp \<Rightarrow> string \<Rightarrow> string \<Rightarrow> string \<Rightarrow> string" where
  "rx_replace_from re rep pre [] =
     (case rx_match_at re pre [] of Some n \<Rightarrow> rep | None \<Rightarrow> [])"
| "rx_replace_from re rep pre (x # xs) =
     (case rx_match_at re pre (x # xs) of
        None \<Rightarrow> x # rx_replace_from re rep (x # pre) xs
      | Some 0 \<Rightarrow> rep @ x # rx_replace_from re rep (x # pre) xs
      | Some (Suc n) \<Rightarrow>
          rep @ rx_replace_from re rep (rev (take n xs) @ x # pre) (drop n xs))"

definition replace_all :: "regexp \<Rightarrow> string \<Rightarrow> string \<Rightarrow> string" where
  "replace_all re rep s = rx_replace_from re rep [] s"

text \<open>Regular-expression literals: \<^verbatim>\<open>/.../\<close>, \<^verbatim>\<open>/.../i\<close> and \<^verbatim>\<open>/.../im\<close>.\<close>

definition rx :: "rx_item list list \<Rightarrow> regexp" where
  "rx alts = \<lparr>alternatives = alts, ignoreCase = False, multiline = False\<rparr>"

definition rx_i :: "rx_item list list \<Rightarrow> regexp" where
  "rx_i alts = \<lparr>alternatives = alts, ignoreCase = True, multiline = False\<rparr>"


definition one_of :: "string \<Rightarrow> char \<Rightarrow> bool" where
  "one_of cs c = (c \<in> set cs)"

definition not_word_space :: "char \<Rightarrow> bool" where
  "not_word_space c = (\<not> is_word c \<and> \<not> is_space c)"


section \<open>Text normalizer (\<^verbatim>\<open>lib/normalization/text-normalizer.js\<close>)\<close>

text \<open>
  Stage 1, \<^verbatim>\<open>normalizeCharacters\<close>: NFKC normalization, then smart quotes
  (\<^verbatim>\<open>U+2018 U+2019 U+201C U+201D\<close>), dashes (\<^verbatim>\<open>U+2013 U+2014\<close>), the ellipsis
  (\<^verbatim>\<open>U+2026\<close>), the whitespace variants (\<^verbatim>\<open>U+00A0 U+1680 U+2000-U+200B U+202F U+205F
  U+3000\<close>) and the zero-width characters (\<^verbatim>\<open>U+200B-U+200D U+FEFF\<close>) are replaced. Every
  one of these steps rewrites code units above \<^verbatim>\<open>U+007F\<close> only, and NFKC leaves ASCII
  text as it is: on the ASCII text of this development the stage returns its input.
\<close>

definition normalizeCharacters :: "string \<Rightarrow> string" where
  "normalizeCharacters text = text"

record normalizeOptions =
  lowercase :: bool
  expandContractions :: bool
  normalizeNumbers :: bool
  preserveQuestionMarks :: bool

text \<open>The defaults of the destructuring patterns: what \<^verbatim>\<open>normalize(text)\<close> runs with.\<close>

definition default_normalizeOptions :: normalizeOptions where
  "default_normalizeOptions =
     \<lparr>lowercase = True, expandContractions = True, normalizeNumbers = False,
      preserveQuestionMarks = False\<rparr>"

text \<open>Stage 2.\<close>

definition normalizePunctuation :: "string \<Rightarrow> normalizeOptions \<Rightarrow> string" where
  "normalizePunctuation text0 options =
     (let text1 = replace_all (rx [[Bol, Plus not_word_space], [Plus not_word_space, Eol]]) [] text0;
          text2 = replace_all (rx [[One (one_of ''.,;:'')]]) '' '' text1;
          text3 = (if \<not> preserveQuestionMarks options
                   then replace_all (rx [[One (one_of ''?!'')]]) '' '' text2 else text2);
          text4 = replace_all (rx [[One (one_of [CHR 0x22, CHR 0x27, CHR 0x60])]]) [] text3;
          text5 = replace_all (rx [[One (one_of ''(){}[]'')]]) '' '' text4;
          text6 = replace_all (rx [[One (one_of (''<>|'' @ [CHR 0x5C] @ ''/~^*+=_''))]]) '' '' text5;
          text7 = replace_all (rx [[One is_space, Plus (one_of ''-''), One is_space]]) '' '' text6;
          text8 = replace_all (rx [[One is_space, Plus (one_of ''-'')]]) '' '' text7;
          text9 = replace_all (rx [[Plus (one_of ''-''), One is_space]]) '' '' text8
      in text9)"

text \<open>The contraction dictionary of stage 3, in the order of its entries.\<close>

definition contractions :: "(string \<times> string) list" where
  "contractions =
     [(''don't'', ''do not''),
      (''doesn't'', ''does not''),
      (''didn't'', ''did not''),
      (''won't'', ''will not''),
      (''wouldn't'', ''would not''),
      (''can't'', ''cannot''),
      (''couldn't'', ''could not''),
      (''shouldn't'', ''should not''),
      (''isn't'', ''is not''),
      (''aren't'', ''are not''),
      (''wasn't'', ''was not''),
      (''weren't'', ''were not''),
      (''haven't'', ''have not''),
      (''hasn't'', ''has not''),
      (''hadn't'', ''had not''),
      (''i'm'', ''i am''),
      (''you're'', ''you are''),
      (''he's'', ''he is''),
      (''she's'', ''she is''),
      (''it's'', ''it is''),
      (''we're'', ''we are''),
      (''they're'', ''they are''),
      (''i've'', ''i have''),
      (''you've'', ''you have''),
      (''we've'', ''we have''),
      (''they've'', ''they have''),
      (''i'll'', ''i will''),
      (''you'll'', ''you will''),
      (''he'll'', ''he will''),
      (''she'll'', ''she will''),
      (''we'll'', ''we will''),
      (''they'll'', ''they will''),
      (''i'd'', ''i would''),
      (''you'd'', ''you would''),
      (''he'd'', ''he would''),
      (''she'd'', ''she would''),
      (''we'd'', ''we would''),
      (''they'd'', ''they would'')]"

definition numberWords :: "(string \<times> string) list" where
  "numberWords =
     [(''zero'', ''0''), (''one'', ''1''), (''two'', ''2''), (''three'', ''3''), (''four'', ''4''),
      (''five'', ''5''), (''six'', ''6''), (''seven'', ''7''), (''eight'', ''8''), (''nine'', ''9''),
      (''ten'', ''10''), (''eleven'', ''11''), (''twelve'', ''12''), (''thirteen'', ''13''),
      (''fourteen'', ''14''), (''fifteen'', ''15''), (''sixteen'', ''16''), (''seventeen'', ''17''),
      (''eighteen'', ''18''), (''nineteen'', ''19''), (''twenty'', ''20''), (''thirty'', ''30''),
      (''forty'', ''40''), (''fifty'', ''50''), (''sixty'', ''60''), (''seventy'', ''70''),
      (''eighty'', ''80''), (''ninety'', ''90''), (''hundred'', ''100''), (''thousand'', ''1000'')]"

text \<open>
  \<^verbatim>\<open>text.replace(new RegExp('\\b' + w + '\\b', 'gi'), r)\<close> for each entry \<open>(w, r)\<close> in
  turn. The keys of both dictionaries hold letters and the apostrophe only, so each
  character of a key is a literal of the regular expression.
\<close>

definition replace_words :: "(string \<times> string) list \<Rightarrow> string \<Rightarrow> string" where
  "replace_words entries text =
     foldl (\<lambda>t (w, r). replace_all (rx_i [[WordB, Lit w, WordB]]) r t) text entries"

text \<open>Stage 3.\<close>

definition transformText :: "string \<Rightarrow> normalizeOptions \<Rightarrow> string" where
  "transformText text0 options =
     (let text1 = (if expandContractions options then replace_words contractions text0 else text0);
          text2 = (if normalizeNumbers options then replace_words numberWords text1 else text1);
          text3 = (if lowercase options then toLowerCase text2 else text2)
      in text3)"

text \<open>Stage 4.\<close>

definition normalizeStructure :: "string \<Rightarrow> string" where
  "normalizeStructure text0 = trim (replace_all (rx [[Plus is_space]]) '' '' text0)"

text \<open>
  \<^verbatim>\<open>normalize(text, options)\<close> on a string; the empty string is the falsy one.
\<close>

definition normalize :: "string \<Rightarrow> normalizeOptions \<Rightarrow> string" where
  "normalize text options =
     (if text = [] then []
      else normalizeStructure
             (transformText (normalizePunctuation (normalizeCharacters text) options) options))"

definition normalizeForMatching :: "string \<Rightarrow> string" where
  "normalizeForMatching text =
     normalize text \<lparr>lowercase = True, expandContractions = True, normalizeNumbers = False,
                     preserveQuestionMarks = False\<rparr>"

definition normalizeForKeywords :: "string \<Rightarrow> string" where
  "normalizeForKeywords text =
     normalize text \<lparr>lowercase = True, expandContractions = False, normalizeNumbers = False,
                     preserveQuestionMarks = False\<rparr>"

section \<open>Stop words (\<^verbatim>\<open>lib/normalization/stopwords.js\<close>)\<close>

text \<open>
  The three \<^verbatim>\<open>Set\<close>s are read with \<^verbatim>\<open>has\<close> only; each is given by the list of words
  in its literal (a word listed twice is in the \<^verbatim>\<open>Set\<close> once).
\<close>

definition ENGLISH_STOPWORDS :: "string list" where
  "ENGLISH_STOPWORDS =
     [''a'', ''an'', ''the'',
      ''i'', ''you'', ''he'', ''she'', ''it'', ''we'', ''they'', ''them'', ''their'', ''theirs'',
      ''me'', ''him'', ''her'', ''us'', ''my'', ''your'', ''his'', ''its'', ''our'',
      ''myself'', ''yourself'', ''himself'', ''herself'', ''itself'', ''ourselves'', ''themselves'',
      ''this'', ''that'', ''these'', ''those'',
      ''in'', ''on'', ''at'', ''to'', ''for'', ''with'', ''from'', ''by'', ''about'', ''as'',
      ''into'', ''through'', ''during'', ''before'', ''after'', ''above'', ''below'',
      ''between'', ''under'', ''over'', ''of'', ''off'', ''up'', ''down'', ''out'',
      ''and'', ''or'', ''but'', ''nor'', ''so'', ''yet'', ''if'', ''because'', ''while'',
      ''although'', ''though'', ''unless'', ''since'', ''until'', ''when'', ''where'',
      ''is'', ''am'', ''are'', ''was'', ''were'', ''be'', ''been'', ''being'',
      ''have'', ''has'', ''had'', ''having'',
      ''do'', ''does'', ''did'', ''doing'',
      ''will'', ''would'', ''shall'', ''should'', ''may'', ''might'', ''must'', ''can'', ''could'',
      ''get'', ''got'', ''getting'',
      ''make'', ''made'', ''making'',
      ''go'', ''went'', ''going'', ''gone'',
      ''come'', ''came'', ''coming'',
      ''take'', ''took'', ''taken'', ''taking'',
      ''see'', ''saw'', ''seen'', ''seeing'',
      ''know'', ''knew'', ''known'', ''knowing'',
      ''think'', ''thought'', ''thinking'',
      ''say'', ''said'', ''saying'',
      ''tell'', ''told'', ''telling'',
      ''give'', ''gave'', ''given'', ''giving'',
      ''find'', ''found'', ''finding'',
      ''use'', ''used'', ''using'',
      ''want'', ''wanted'', ''wanting'',
      ''work'', ''worked'', ''working'',
      ''call'', ''called'', ''calling'',
      ''try'', ''tried'', ''trying'',
      ''ask'', ''asked'', ''asking'',
      ''need'', ''needed'', ''needing'',
      ''feel'', ''felt'', ''feeling'',
      ''become'', ''became'', ''becoming'',
      ''leave'', ''left'', ''leaving'',
      ''put'', ''putting'',
      ''not'', ''no'', ''yes'',
      ''all'', ''any'', ''some'', ''many'', ''much'', ''more'', ''most'', ''few'', ''less'', ''least'',
      ''each'', ''every'', ''both'', ''either'', ''neither'', ''other'', ''another'',
      ''such'', ''same'', ''different'',
      ''very'', ''too'', ''quite'', ''rather'', ''just'', ''only'', ''even'', ''also'', ''still'',
      ''here'', ''there'', ''now'', ''then'', ''today'', ''tomorrow'', ''yesterday'',
      ''always'', ''never'', ''sometimes'', ''often'', ''usually'', ''seldom'',
      ''again'', ''back'', ''away'', ''around'',
      ''than'', ''then'', ''once'', ''twice'',
      ''one'', ''two'', ''first'', ''second'', ''last'', ''next'',
      ''new'', ''old'', ''good'', ''bad'', ''big'', ''small'', ''long'', ''short'',
      ''high'', ''low'', ''right'', ''left'', ''near'', ''far'',
      ''well'', ''better'', ''best'', ''worse'', ''worst'',
      ''own'', ''same'', ''sure'', ''certain'',
      ''however'', ''therefore'', ''thus'', ''hence'', ''moreover'', ''furthermore'',
      ''etc'', ''ie'', ''eg'', ''vs'', ''via'']"

definition QUESTION_WORDS :: "string list" where
  "QUESTION_WORDS =
     [''what'', ''when'', ''where'', ''which'', ''who'', ''whom'', ''whose'', ''why'', ''how'']"

definition IMPORTANT_QUALIFIERS :: "string list" where
  "IMPORTANT_QUALIFIERS =
     [''not'', ''never'', ''always'', ''only'', ''must'', ''should'', ''can'', ''cannot'',
      ''true'', ''false'', ''correct'', ''incorrect'', ''right'', ''wrong'']"

definition isStopword :: "string \<Rightarrow> bool" where
  "isStopword w =
     (if Set_has QUESTION_WORDS w \<or> Set_has IMPORTANT_QUALIFIERS w then False
      else Set_has ENGLISH_STOPWORDS w)"

definition filterStopwords :: "string list \<Rightarrow> string list" where
  "filterStopwords ws = filter (\<lambda>w. \<not> isStopword (toLowerCase w)) ws"

section \<open>Keyword extractor (\<^verbatim>\<open>lib/normalization/keyword-extractor.js\<close>)\<close>

definition isNumber :: "string \<Rightarrow> bool" where
  "isNumber w =
     (rx_test (rx [[Bol, Plus is_digit, Eol],
                   [Bol, Plus is_digit, Lit ''.'', Plus is_digit, Eol]]) w \<or>
      rx_test (rx [[Bol, Plus is_digit, Lit ''st'', Eol], [Bol, Plus is_digit, Lit ''nd'', Eol],
                   [Bol, Plus is_digit, Lit ''rd'', Eol], [Bol, Plus is_digit, Lit ''th'', Eol]]) w)"

definition dateWords :: "string list" where
  "dateWords =
     [''january'', ''february'', ''march'', ''april'', ''may'', ''june'',
      ''july'', ''august'', ''september'', ''october'', ''november'', ''december'',
      ''monday'', ''tuesday'', ''wednesday'', ''thursday'', ''friday'', ''saturday'', ''sunday'',
      ''today'', ''tomorrow'', ''yesterday'', ''year'', ''month'', ''week'', ''day'']"

definition isDateRelated :: "string \<Rightarrow> bool" where
  "isDateRelated w = Set_has dateWords (toLowerCase w)"

text \<open>
  \<^verbatim>\<open>new RegExp(`[^.!?]\\s+${word}`, 'i')\<close>: the word is spliced into the source of the
  regular expression. A token of normalized text holds none of the operators
  \<^verbatim>\<open>. * + ? ( ) [ ] { } ^ | \ /\<close> (stage 2 of the normalizer replaces them), so every
  character of the word is a literal, except \<^verbatim>\<open>$\<close>, which stage 2 keeps and which
  is the end-of-input assertion.
\<close>

definition word_items :: "string \<Rightarrow> rx_item list" where
  "word_items w = map (\<lambda>c. if c = CHR ''$'' then Eol else Lit [c]) w"

text \<open>
  \<^verbatim>\<open>isProperNoun\<close>: the last whitespace-separated piece of the trimmed match is compared
  in its first character with its upper-case form. An empty piece has no first
  character; the result is then \<open>False\<close> here.
\<close>

definition isProperNoun :: "string \<Rightarrow> string \<Rightarrow> bool" where
  "isProperNoun w originalText =
     (case rx_exec (rx_i [[One (\<lambda>c. \<not> one_of ''.!?'' c), Plus is_space] @ word_items w])
             originalText of
        None \<Rightarrow> False
      | Some m \<Rightarrow>
          (case last (split_whitespace (trim m)) of
             [] \<Rightarrow> False
           | c # cs \<Rightarrow> c = toUpperCase_char c))"

definition isTechnicalTerm :: "string \<Rightarrow> string \<Rightarrow> bool" where
  "isTechnicalTerm w originalWord =
     (if rx_test (rx [[One (\<lambda>c. is_digit c \<or> one_of ''-@#$%'' c)]]) originalWord then True
      else if length originalWord > 1 \<and> originalWord = toUpperCase originalWord then True
      else if rx_test (rx [[One (one_of lowercase_letters), One (one_of uppercase_letters)]])
                originalWord then True
      else False)"

definition classifyKeywordType :: "string \<Rightarrow> string \<Rightarrow> string \<Rightarrow> keywordType" where
  "classifyKeywordType w originalText originalWord =
     (if isStopword w then STOPWORD
      else if isTechnicalTerm w originalWord then TECHNICAL
      else if isProperNoun w originalText \<or> isNumber w \<or> isDateRelated w then ENTITY
      else COMMON)"

subsection \<open>The word-frequency object\<close>

text \<open>
  \<^verbatim>\<open>wordFrequency\<close> is a plain object literal \<^verbatim>\<open>{}\<close>, so a property read that finds no
  own property continues in \<^verbatim>\<open>Object.prototype\<close>. The values that occur are counts
  and, once an inherited function or object has been through
  \<^verbatim>\<open>(wordFrequency[word] || 0) + 1\<close>, strings that are not numerals (\<open>Text\<close>).
  An assignment to \<^verbatim>\<open>__proto__\<close> of a value that is not an object changes nothing.
\<close>

datatype property = Undefined | Count nat | Text | Inherited

definition Object_prototype_keys :: "string list" where
  "Object_prototype_keys =
     [''constructor'', ''hasOwnProperty'', ''isPrototypeOf'', ''propertyIsEnumerable'',
      ''toLocaleString'', ''toString'', ''valueOf'', ''__defineGetter__'', ''__defineSetter__'',
      ''__lookupGetter__'', ''__lookupSetter__'', ''__proto__'']"

definition Object_get :: "(string, property) jsmap \<Rightarrow> string \<Rightarrow> property" where
  "Object_get obj k =
     (case Map_get obj k of
        Some v \<Rightarrow> v
      | None \<Rightarrow> if k \<in> set Object_prototype_keys then Inherited else Undefined)"

definition Object_set :: "(string, property) jsmap \<Rightarrow> string \<Rightarrow> property \<Rightarrow> (string, property) jsmap" where
  "Object_set obj k v = (if k = ''__proto__'' then obj else Map_set obj k v)"

text \<open>\<^verbatim>\<open>(p || 0) + 1\<close>: a count goes up by one; a function, an object or a string is concatenated with \<^verbatim>\<open>1\<close>.\<close>

fun or_zero_plus_one :: "property \<Rightarrow> property" where
  "or_zero_plus_one Undefined = Count 1"
| "or_zero_plus_one (Count n) = Count (n + 1)"
| "or_zero_plus_one Text = Text"
| "or_zero_plus_one Inherited = Text"

definition count_words :: "string list \<Rightarrow> (string, property) jsmap" where
  "count_words ws = foldl (\<lambda>wf w. Object_set wf w (or_zero_plus_one (Object_get wf w))) [] ws"

text \<open>The number a property is read as in an arithmetic operation.\<close>

fun ToNumber :: "property \<Rightarrow> jsnum" where
  "ToNumber (Count n) = Num (real n)"
| "ToNumber _ = NaN"

text \<open>\<^verbatim>\<open>p + 1\<close>, read as a number afterwards.\<close>

fun plus_one :: "property \<Rightarrow> jsnum" where
  "plus_one (Count n) = Num (real n + 1)"
| "plus_one _ = NaN"

text \<open>
  \<^verbatim>\<open>Math.max(...Object.values(wordFrequency))\<close>. The object has no own property only
  when every word is \<^verbatim>\<open>__proto__\<close>; the maximum is \<^verbatim>\<open>-Infinity\<close> then and is only
  ever divided by \<^verbatim>\<open>NaN\<close>, so \<^verbatim>\<open>NaN\<close> stands for it.
\<close>

definition Math_max_values :: "(string, property) jsmap \<Rightarrow> jsnum" where
  "Math_max_values obj =
     (if obj = [] then NaN
      else foldl (\<lambda>m p. case (m, ToNumber (snd p)) of
                           (Num a, Num b) \<Rightarrow> Num (max a b)
                         | _ \<Rightarrow> NaN)
             (ToNumber (snd (hd obj))) (tl obj))"

text \<open>\<^verbatim>\<open>Math.log\<close> on the positive numbers and on \<^verbatim>\<open>NaN\<close>, its arguments here.\<close>

fun Math_log :: "jsnum \<Rightarrow> jsnum" where
  "Math_log (Num x) = (if x > 0 then Num (ln x) else NaN)"
| "Math_log NaN = NaN"

definition calculateWordImportance ::
  "string \<Rightarrow> string list \<Rightarrow> (string, property) jsmap \<Rightarrow> jsnum" where
  "calculateWordImportance w allWords wordFrequency =
     (let tf = js_div (ToNumber (Object_get wordFrequency w)) (Num (real (length allWords)));
          maxFreq = Math_max_values wordFrequency;
          idf = Math_log (js_div maxFreq (plus_one (Object_get wordFrequency w)));
          tfidf = js_mul tf idf
      in js_min (js_mul tfidf (Num 10)) (Num 1.0))"

text \<open>\<^verbatim>\<open>words.slice(i, i + n)\<close> for each \<^verbatim>\<open>i\<close> from \<^verbatim>\<open>0\<close> to \<^verbatim>\<open>words.length - n\<close>.\<close>

definition extractNGrams :: "string list \<Rightarrow> nat \<Rightarrow> string list" where
  "extractNGrams ws n =
     concat (map (\<lambda>i. let ngramWords = take n (drop i ws)
                        in if list_ex (\<lambda>w. \<not> isStopword w) ngramWords
                           then [join_space ngramWords] else [])
                 [0 ..< Suc (length ws) - n])"

text \<open>
  \<^verbatim>\<open>keywords.sort((a, b) => b.importance - a.importance)\<close>: a stable sort; a comparator
  result of \<^verbatim>\<open>NaN\<close> counts as \<^verbatim>\<open>0\<close>.
\<close>

definition before_or_equal :: "keyword \<Rightarrow> keyword \<Rightarrow> bool" where
  "before_or_equal a b =
     (case js_sub (importance b) (importance a) of Num d \<Rightarrow> d \<le> 0 | NaN \<Rightarrow> True)"

fun insert_sorted :: "keyword \<Rightarrow> keyword list \<Rightarrow> keyword list" where
  "insert_sorted a [] = [a]"
| "insert_sorted a (b # bs) = (if before_or_equal a b then a # b # bs else b # insert_sorted a bs)"

definition sort_by_importance :: "keyword list \<Rightarrow> keyword list" where
  "sort_by_importance kws = foldr insert_sorted kws []"

text \<open>The filter with the \<^verbatim>\<open>seen\<close> set: the first keyword of each word is kept.\<close>

fun uniqueKeywords :: "string list \<Rightarrow> keyword list \<Rightarrow> keyword list" where
  "uniqueKeywords seen [] = []"
| "uniqueKeywords seen (kw # kws) =
     (if Set_has seen (word kw) then uniqueKeywords seen kws
      else kw # uniqueKeywords (Set_add seen (word kw)) kws)"

text \<open>One round of the loop over the words: the keyword pushed, if any.\<close>

definition single_keyword ::
  "string \<Rightarrow> string list \<Rightarrow> string list \<Rightarrow> (string, property) jsmap \<Rightarrow> string \<times> nat \<Rightarrow> keyword list" where
  "single_keyword originalText originalWords ws wordFrequency wi =
     (let w = fst wi; index = snd wi
      in if isStopword w \<and> \<not> Set_has QUESTION_WORDS w then []
         else if length w < MIN_KEYWORD_LENGTH \<or> length w > MAX_KEYWORD_LENGTH then []
         else
           let originalWord = (if index < length originalWords \<and> originalWords ! index \<noteq> []
                               then originalWords ! index else w);
               imp = calculateWordImportance w ws wordFrequency
           in if js_lt imp (Num IMPORTANCE_THRESHOLD) then []
              else [\<lparr>word = w, importance = imp,
                     ktype = classifyKeywordType w originalText originalWord\<rparr>])"

text \<open>One round of the loop over the phrases.\<close>

definition phrase_keyword :: "string list \<Rightarrow> (string, property) jsmap \<Rightarrow> string \<Rightarrow> keyword list" where
  "phrase_keyword ws wordFrequency phrase =
     (let phraseWords = split_space phrase;
          avgImportance =
            js_div (foldl (\<lambda>sum w. js_add sum (calculateWordImportance w ws wordFrequency))
                      (Num 0) phraseWords)
                   (Num (real (length phraseWords)));
          boostedImportance = js_min (js_mul avgImportance (Num 1.5)) (Num 1.0)
      in if js_ge boostedImportance (Num IMPORTANCE_THRESHOLD)
         then [\<lparr>word = phrase, importance = boostedImportance, ktype = COMMON\<rparr>] else [])"

text \<open>
  \<^verbatim>\<open>extractKeywords(text, {maxKeywords, includePhrases})\<close> on a string; the defaults are
  \<open>MAX_KEYWORDS\<close> and \<open>True\<close>.
\<close>

definition extractKeywords_with :: "string \<Rightarrow> nat \<Rightarrow> bool \<Rightarrow> keyword list" where
  "extractKeywords_with text maxKeywords includePhrases =
     (if text = [] then []
      else
        let originalText = text;
            normalizedText = normalizeForKeywords text;
            ws = filter (\<lambda>w. length w \<ge> MIN_KEYWORD_LENGTH) (split_whitespace normalizedText)
        in if ws = [] then []
           else
             let wordFrequency = count_words ws;
                 originalWords = split_whitespace originalText;
                 singles = concat (map (single_keyword originalText originalWords ws wordFrequency)
                                      (zip ws [0 ..< length ws]));
                 phrases = (if includePhrases
                            then concat (map (phrase_keyword ws wordFrequency)
                                           (extractNGrams ws 2 @ extractNGrams ws 3))
                            else []);
                 sorted = sort_by_importance (singles @ phrases)
             in take maxKeywords (uniqueKeywords [] sorted))"

definition extractKeywords :: "string \<Rightarrow> keyword list" where
  "extractKeywords text = extractKeywords_with text MAX_KEYWORDS True"

definition extractKeywordStrings :: "string \<Rightarrow> string list" where
  "extractKeywordStrings text = map word (extractKeywords text)"

section \<open>Question classifier (\<^verbatim>\<open>lib/normalization/question-classifier.js\<close>)\<close>

















subsection \<open>The classification rule in the words of the specification\<close>






section \<open>String similarity (\<^verbatim>\<open>lib/utils/string-utils.js\<close>)\<close>

text \<open>
  \<^verbatim>\<open>levenshteinDistance\<close> fills its matrix row by row. \<open>levenshtein_cells\<close> computes the
  cells \<open>1, 2, ...\<close> of row \<open>i\<close> from the row above (\<open>diag\<close> and \<open>up\<close> are its cells
  \<open>j - 1\<close> and \<open>j\<close>) and from the cell to the left.
\<close>

fun levenshtein_cells :: "char \<Rightarrow> string \<Rightarrow> nat list \<Rightarrow> nat \<Rightarrow> nat list" where
  "levenshtein_cells c (d # ds) (diag # up # prev) left =
     (let cost = (if c = d then 0 else 1);
          cell = min (min (up + 1) (left + 1)) (diag + cost)
      in cell # levenshtein_cells c ds (up # prev) cell)"
| "levenshtein_cells c ds prev left = []"

definition levenshtein_row :: "string \<Rightarrow> nat list \<Rightarrow> char \<times> nat \<Rightarrow> nat list" where
  "levenshtein_row str2 prev ci = snd ci # levenshtein_cells (fst ci) str2 prev (snd ci)"

definition levenshteinDistance :: "string \<Rightarrow> string \<Rightarrow> nat" where
  "levenshteinDistance str1 str2 =
     last (foldl (levenshtein_row str2) [0 ..< Suc (length str2)]
             (zip str1 [1 ..< Suc (length str1)]))"

definition levenshteinSimilarity :: "string \<Rightarrow> string \<Rightarrow> real" where
  "levenshteinSimilarity str1 str2 =
     (if str1 = str2 then 1.0
      else if length str1 = 0 \<or> length str2 = 0 then 0.0
      else 1 - real (levenshteinDistance str1 str2) / real (max (length str1) (length str2)))"

text \<open>
  \<^verbatim>\<open>jaroWinklerSimilarity\<close>. The first loop marks, for each position of \<open>str1\<close> in
  turn, the first unmarked position of \<open>str2\<close> inside the window that holds the same
  character. The match window may be \<open>-1\<close> (both strings of length one); the range is
  then empty.
\<close>

definition jaro_mark :: "string \<Rightarrow> string \<Rightarrow> int \<Rightarrow> bool list \<times> bool list \<Rightarrow> nat \<Rightarrow> bool list \<times> bool list" where
  "jaro_mark str1 str2 matchWindow marks i =
     (let start = nat (max 0 (int i - matchWindow));
          end_j = nat (min (int i + matchWindow + 1) (int (length str2)))
      in case find (\<lambda>j. \<not> snd marks ! j \<and> str1 ! i = str2 ! j) [start ..< end_j] of
           None \<Rightarrow> marks
         | Some j \<Rightarrow> ((fst marks)[i := True], (snd marks)[j := True]))"

text \<open>
  The second loop walks the marked positions of both strings in step and counts the
  pairs that differ: the marked characters of \<open>str1\<close> against those of \<open>str2\<close>, in
  order.
\<close>

definition marked_chars :: "string \<Rightarrow> bool list \<Rightarrow> string" where
  "marked_chars s marks = map fst (filter snd (zip s marks))"

definition jaroWinklerSimilarity :: "string \<Rightarrow> string \<Rightarrow> real" where
  "jaroWinklerSimilarity str1 str2 =
     (if str1 = str2 then 1.0
      else if length str1 = 0 \<or> length str2 = 0 then 0.0
      else
        let matchWindow = int (max (length str1) (length str2) div 2) - 1;
            marks = foldl (jaro_mark str1 str2 matchWindow)
                      (replicate (length str1) False, replicate (length str2) False)
                      [0 ..< length str1];
            matches = length (filter id (fst marks))
        in if matches = 0 then 0.0
           else
             let transpositions =
                   length (filter (\<lambda>(a, b). a \<noteq> b)
                             (zip (marked_chars str1 (fst marks)) (marked_chars str2 (snd marks))));
                 jaro = (real matches / real (length str1) + real matches / real (length str2)
                         + (real matches - real transpositions / 2) / real matches) / 3;
                 prefixLength =
                   length (takeWhile (\<lambda>(a, b). a = b) (zip (take 4 str1) (take 4 str2)))
             in jaro + (real prefixLength * 0.1 * (1 - jaro)))"

definition substringScore :: "string \<Rightarrow> string \<Rightarrow> real" where
  "substringScore str1 str2 =
     (if str1 = str2 then 1.0
      else if length str1 = 0 \<or> length str2 = 0 then 0.0
      else
        let shorter = (if length str1 < length str2 then str1 else str2);
            longer = (if length str1 < length str2 then str2 else str1)
        in if String_includes longer shorter then real (length shorter) / real (length longer)
           else 0.0)"

definition tokenize :: "string \<Rightarrow> string list" where
  "tokenize text = filter (\<lambda>w. length w > 0) (split_whitespace (toLowerCase text))"

definition wordPositionSimilarity :: "string \<Rightarrow> string \<Rightarrow> real" where
  "wordPositionSimilarity str1 str2 =
     (let words1 = tokenize str1; words2 = tokenize str2
      in if length words1 = 0 \<or> length words2 = 0 then 0.0
         else
           let maxLength = max (length words1) (length words2);
               positionScore = length (filter (\<lambda>(a, b). a = b) (zip words1 words2))
           in real positionScore / real maxLength)"

section \<open>Tiers 1, 3 and 4\<close>

text \<open>\<^verbatim>\<open>exactMatch\<close> of \<^verbatim>\<open>lib/matching/exact-matcher.js\<close>.\<close>

definition exactMatch :: "string \<Rightarrow> database \<Rightarrow> matchResult option" where
  "exactMatch normalizedQuery db =
     (case getQuestionByNormalizedText db normalizedQuery of
        None \<Rightarrow> None
      | Some q \<Rightarrow>
          Some \<lparr>question = q,
                matchType = EXACT,
                confidence = calculateConfidence EXACT 1.0
                  \<lparr>queryLength = length normalizedQuery,
                   questionLength = length (normalizedQuestion q)\<rparr>,
                rawScore = 1.0,
                metadata_tier = 1,
                metadata_method = ''exact_normalized'',
                candidatesEvaluated = None,
                matchedKeywords = None\<rparr>)"

text \<open>
  The scoring loop of \<^verbatim>\<open>fuzzyMatch\<close> and \<^verbatim>\<open>partialMatch\<close>: a candidate replaces the
  best one when its score is strictly higher.
\<close>

definition best_candidate :: "(question \<Rightarrow> real) \<Rightarrow> question list \<Rightarrow> question option \<times> real" where
  "best_candidate score candidates =
     foldl (\<lambda>best candidate.
              if score candidate > snd best then (Some candidate, score candidate) else best)
           (None, 0) candidates"

text \<open>\<^verbatim>\<open>fuzzyMatch\<close> of \<^verbatim>\<open>lib/matching/fuzzy-matcher.js\<close>.\<close>

definition fuzzyMatch :: "string \<Rightarrow> question list \<Rightarrow> matchResult option" where
  "fuzzyMatch normalizedQuery candidates =
     (if candidates = [] then None
      else
        let limitedCandidates = take FUZZY_MAX_CANDIDATES candidates;
            best = best_candidate
                     (\<lambda>candidate.
                        let candidateText = normalizedQuestion candidate;
                            levenshtein = levenshteinSimilarity normalizedQuery candidateText;
                            jaroWinkler = jaroWinklerSimilarity normalizedQuery candidateText
                        in (levenshtein * 0.6) + (jaroWinkler * 0.4))
                     limitedCandidates;
            bestScore = snd best
        in if bestScore < FUZZY_MIN_SIMILARITY then None
           else
             (case fst best of
                None \<Rightarrow> None
              | Some bestMatch \<Rightarrow>
                  Some \<lparr>question = bestMatch,
                        matchType = FUZZY,
                        confidence = calculateConfidence FUZZY bestScore
                          \<lparr>queryLength = length normalizedQuery,
                           questionLength = length (normalizedQuestion bestMatch)\<rparr>,
                        rawScore = bestScore,
                        metadata_tier = 3,
                        metadata_method = ''fuzzy_similarity'',
                        candidatesEvaluated = Some (length limitedCandidates),
                        matchedKeywords = None\<rparr>))"

text \<open>\<^verbatim>\<open>partialMatch\<close> of \<^verbatim>\<open>lib/matching/partial-matcher.js\<close>.\<close>

definition partialMatch :: "string \<Rightarrow> question list \<Rightarrow> matchResult option" where
  "partialMatch normalizedQuery candidates =
     (if candidates = [] then None
      else
        let best = best_candidate
                     (\<lambda>candidate.
                        let candidateText = normalizedQuestion candidate;
                            substringScoreValue = substringScore normalizedQuery candidateText;
                            positionSimilarity = wordPositionSimilarity normalizedQuery candidateText
                        in (substringScoreValue * 0.7) + (positionSimilarity * 0.3))
                     candidates;
            bestScore = snd best
        in if bestScore < PARTIAL_MIN_SCORE then None
           else
             (case fst best of
                None \<Rightarrow> None
              | Some bestMatch \<Rightarrow>
                  Some \<lparr>question = bestMatch,
                        matchType = PARTIAL,
                        confidence = calculateConfidence PARTIAL bestScore
                          \<lparr>queryLength = length normalizedQuery,
                           questionLength = length (normalizedQuestion bestMatch)\<rparr>,
                        rawScore = bestScore,
                        metadata_tier = 4,
                        metadata_method = ''partial_substring'',
                        candidatesEvaluated = Some (length candidates),
                        matchedKeywords = None\<rparr>))"

section \<open>Errors (\<^verbatim>\<open>lib/utils/error-handler.js\<close>)\<close>

datatype error_code =
    FILE_TOO_LARGE | FILE_INVALID_FORMAT | FILE_ENCODING_ERROR
  | DB_QUOTA_EXCEEDED | DB_UNAVAILABLE | DB_TRANSACTION_FAILED | DB_CORRUPTED
  | QUERY_EMPTY | QUERY_TOO_LONG | NO_DATA_LOADED
  | UNKNOWN_ERROR | TIMEOUT

text \<open>An \<^verbatim>\<open>AppError\<close>; the details of the errors raised here are numbers by name.\<close>

record AppError =
  code :: error_code
  message :: string
  details :: "(string \<times> nat) list"

fun show_nat :: "nat \<Rightarrow> string" where
  "show_nat n =
     (if n < 10 then [decimal_digits ! n] else show_nat (n div 10) @ [decimal_digits ! (n mod 10)])"

text \<open>A detail spliced into a template literal; a detail that is absent reads \<^verbatim>\<open>undefined\<close>.\<close>

definition show_detail :: "(string \<times> nat) list \<Rightarrow> string \<Rightarrow> string" where
  "show_detail ds k = (case map_of ds k of Some n \<Rightarrow> show_nat n | None \<Rightarrow> ''undefined'')"

fun getUserFriendlyMessage :: "error_code \<Rightarrow> (string \<times> nat) list \<Rightarrow> string" where
  "getUserFriendlyMessage FILE_TOO_LARGE ds =
     ''File is too large ('' @ show_detail ds ''size'' @ ''MB). Maximum size is ''
       @ show_detail ds ''maxSize'' @ ''MB.''"
| "getUserFriendlyMessage FILE_INVALID_FORMAT ds =
     ''Invalid file format. '' @
       (case map_of ds ''reason'' of Some n \<Rightarrow> show_nat n
        | None \<Rightarrow> ''Please check the file structure.'')"
| "getUserFriendlyMessage FILE_ENCODING_ERROR ds =
     ''File encoding error. Please ensure the file is UTF-8 encoded.''"
| "getUserFriendlyMessage DB_QUOTA_EXCEEDED ds =
     ''Storage quota exceeded. Please clear old data or free up browser storage.''"
| "getUserFriendlyMessage DB_UNAVAILABLE ds = ''Database unavailable. Please reload the extension.''"
| "getUserFriendlyMessage DB_TRANSACTION_FAILED ds = ''Database operation failed. Please try again.''"
| "getUserFriendlyMessage DB_CORRUPTED ds =
     ''Database corrupted. Please clear data and re-upload your file.''"
| "getUserFriendlyMessage QUERY_EMPTY ds = ''Please select some text to search.''"
| "getUserFriendlyMessage QUERY_TOO_LONG ds =
     ''Selected text is too long ('' @ show_detail ds ''length'' @ '' characters). Maximum is ''
       @ show_detail ds ''maxLength'' @ ''.''"
| "getUserFriendlyMessage NO_DATA_LOADED ds =
     ''No answer data loaded. Please upload a Q&A file first.''"
| "getUserFriendlyMessage TIMEOUT ds = ''Operation timed out. Please try again.''"
| "getUserFriendlyMessage UNKNOWN_ERROR ds = ''An unexpected error occurred. Please try again.''"

section \<open>Matching engine (\<^verbatim>\<open>lib/matching/matching-engine.js\<close>)\<close>

text \<open>
  What \<open>findAnswer\<close> returns: \<^verbatim>\<open>{success: true, match, tier, source}\<close>,
  \<^verbatim>\<open>{success: false, match: null, message, tier: 0}\<close>, or the error response of
  \<^verbatim>\<open>handleError\<close>, \<^verbatim>\<open>{success: false, error: {code, message, details}}\<close>. The
  \<^verbatim>\<open>processingTime\<close> read from the timer is left out.
\<close>

datatype response =
    Found matchResult nat "string option"
  | NotFound string
  | Failed error_code string "(string \<times> nat) list"

fun success :: "response \<Rightarrow> bool" where
  "success (Found m t s) = True"
| "success (NotFound msg) = False"
| "success (Failed c msg ds) = False"

fun response_match :: "response \<Rightarrow> matchResult option" where
  "response_match (Found m t s) = Some m"
| "response_match _ = None"

fun response_tier :: "response \<Rightarrow> nat option" where
  "response_tier (Found m t s) = Some t"
| "response_tier (NotFound msg) = Some 0"
| "response_tier (Failed c msg ds) = None"

fun error_code_of :: "response \<Rightarrow> error_code option" where
  "error_code_of (Failed c msg ds) = Some c"
| "error_code_of _ = None"

definition handleError :: "AppError \<Rightarrow> response" where
  "handleError error =
     Failed (code error) (getUserFriendlyMessage (code error) (details error)) (details error)"

text \<open>\<^verbatim>\<open>validateQuery\<close> on a string: the error thrown, or nothing.\<close>

definition validateQuery :: "string \<Rightarrow> AppError option" where
  "validateQuery query =
     (if query = [] then
        Some \<lparr>code = QUERY_EMPTY, message = ''Query is empty or invalid'', details = []\<rparr>
      else
        let trimmed = trim query
        in if length trimmed < MIN_QUERY_LENGTH then
             Some \<lparr>code = QUERY_EMPTY, message = ''Query is too short'',
                   details = [(''length'', length trimmed), (''minLength'', MIN_QUERY_LENGTH)]\<rparr>
           else if length trimmed > MAX_QUERY_LENGTH then
             Some \<lparr>code = QUERY_TOO_LONG, message = ''Query is too long'',
                   details = [(''length'', length trimmed), (''maxLength'', MAX_QUERY_LENGTH)]\<rparr>
           else None)"

text \<open>The caller's options; a field the caller leaves out is \<^const>\<open>None\<close>.\<close>

record findAnswerOptions =
  opt_minConfidence :: "real option"
  opt_fuzzyEnabled :: "bool option"
  opt_partialEnabled :: "bool option"
  opt_useCache :: "bool option"
  opt_aiEnabled :: "bool option"
  opt_aiProxyUrl :: "string option"

text \<open>The options after the defaults (\<^verbatim>\<open>opts\<close> in \<open>findAnswer\<close>).\<close>

record pipelineOptions =
  minConfidence :: real
  fuzzyEnabled :: bool
  partialEnabled :: bool
  useCache :: bool
  aiEnabled :: "bool option"
  aiProxyUrl :: "string option"
  query :: string

text \<open>\<^verbatim>\<open>options.minConfidence || 0.5\<close>: a threshold that is missing or \<open>0\<close> becomes \<open>0.5\<close>.\<close>

definition minConfidence_or_default :: "real option \<Rightarrow> real" where
  "minConfidence_or_default x = (case x of None \<Rightarrow> 0.5 | Some c \<Rightarrow> if c = 0 then 0.5 else c)"

text \<open>\<^verbatim>\<open>options.flag !== false\<close>.\<close>

definition not_false :: "bool option \<Rightarrow> bool" where
  "not_false x = (x \<noteq> Some False)"

definition default_options :: "findAnswerOptions \<Rightarrow> string \<Rightarrow> pipelineOptions" where
  "default_options options q =
     \<lparr>minConfidence = minConfidence_or_default (opt_minConfidence options),
      fuzzyEnabled = not_false (opt_fuzzyEnabled options),
      partialEnabled = not_false (opt_partialEnabled options),
      useCache = not_false (opt_useCache options),
      aiEnabled = opt_aiEnabled options,
      aiProxyUrl = opt_aiProxyUrl options,
      query = q\<rparr>"

text \<open>
  The collaborators outside the repository's code: the document store, the remote
  answer service and SHA-256. \<open>ai_query\<close> gives the match of an answer that has
  \<^verbatim>\<open>success\<close> and \<^verbatim>\<open>match\<close> (\<^const>\<open>None\<close> otherwise), for the proxy URL handed
  to \<^verbatim>\<open>updateConfig\<close> (if any), the query, the keywords and the candidates.
\<close>

record environment =
  dbManager :: database
  ai_query :: "string option \<Rightarrow> string \<Rightarrow> keyword list \<Rightarrow> question list \<Rightarrow> matchResult option"
  sha256 :: "string \<Rightarrow> string"

text \<open>
  Instrumentation: \<open>Evaluated k r\<close> records that tier \<open>k\<close> was evaluated and returned
  \<open>r\<close> (tier 5 is the remote fallback).
\<close>

datatype tier_event = Evaluated nat "matchResult option"


text \<open>\<^verbatim>\<open>result && result.confidence >= options.minConfidence\<close>.\<close>

definition meets :: "matchResult option \<Rightarrow> real \<Rightarrow> bool" where
  "meets result threshold = (case result of None \<Rightarrow> False | Some m \<Rightarrow> confidence m \<ge> threshold)"

definition no_match_message :: "bool \<Rightarrow> bool \<Rightarrow> string" where
  "no_match_message hasData ai_on =
     (if \<not> hasData then
        ''No Q&A file uploaded yet. Click the extension icon to upload your questions, or enable AI for instant answers.''
      else if \<not> ai_on then
        ''No match found in your uploaded files. Enable AI Answering in settings for better results!''
      else ''No match found in your database. Enable AI Answering for better results!'')"

text \<open>
  \<open>runMatchingPipeline\<close>, from its end backwards: the remote fallback and the no-match
  report; tier 4; tier 3; and the whole pipeline. Each part takes the events so far and
  returns the response with the events of the run.
\<close>

definition ai_tier ::
  "environment \<Rightarrow> keyword list \<Rightarrow> pipelineOptions \<Rightarrow> bool \<Rightarrow> question list \<Rightarrow> tier_event list
     \<Rightarrow> response \<times> tier_event list" where
  "ai_tier env kws options hasData candidates events =
     (let ai_on = not_false (aiEnabled options)
      in if ai_on then
           let proxy = (case aiProxyUrl options of
                          None \<Rightarrow> None
                        | Some url \<Rightarrow> if url = [] then None else Some url);
               aiResult = ai_query env proxy (query options) kws candidates;
               events' = events @ [Evaluated 5 aiResult]
           in (case aiResult of
                 Some m \<Rightarrow> (Found m 5 (Some ''ai''), events')
               | None \<Rightarrow> (NotFound (no_match_message hasData ai_on), events'))
         else (NotFound (no_match_message hasData ai_on), events))"

definition partial_tier ::
  "environment \<Rightarrow> string \<Rightarrow> keyword list \<Rightarrow> pipelineOptions \<Rightarrow> question list \<Rightarrow> tier_event list
     \<Rightarrow> response \<times> tier_event list" where
  "partial_tier env normalizedQuery kws options candidates events =
     (if partialEnabled options then
        let partialResult = partialMatch normalizedQuery candidates;
            events' = events @ [Evaluated 4 partialResult]
        in (case partialResult of
              Some m \<Rightarrow>
                if confidence m \<ge> minConfidence options then (Found m 4 None, events')
                else ai_tier env kws options True candidates events'
            | None \<Rightarrow> ai_tier env kws options True candidates events')
      else ai_tier env kws options True candidates events)"

definition fuzzy_tier ::
  "environment \<Rightarrow> string \<Rightarrow> keyword list \<Rightarrow> pipelineOptions \<Rightarrow> question list \<Rightarrow> tier_event list
     \<Rightarrow> response \<times> tier_event list" where
  "fuzzy_tier env normalizedQuery kws options candidates events =
     (if fuzzyEnabled options then
        let fuzzyResult = fuzzyMatch normalizedQuery candidates;
            events' = events @ [Evaluated 3 fuzzyResult]
        in (case fuzzyResult of
              Some m \<Rightarrow>
                if confidence m \<ge> minConfidence options then (Found m 3 None, events')
                else partial_tier env normalizedQuery kws options candidates events'
            | None \<Rightarrow> partial_tier env normalizedQuery kws options candidates events')
      else partial_tier env normalizedQuery kws options candidates events)"

text \<open>The candidates handed to tiers 3 and 4 and to the remote fallback.\<close>

definition gather_candidates :: "database \<Rightarrow> keyword list \<Rightarrow> question list" where
  "gather_candidates db kws =
     (let candidates = (if length kws > 0 then getQuestionsByKeywords db (map word kws) else [])
      in if length candidates = 0 then getAllQuestions db else candidates)"

definition runMatchingPipeline ::
  "environment \<Rightarrow> string \<Rightarrow> keyword list \<Rightarrow> pipelineOptions \<Rightarrow> response \<times> tier_event list" where
  "runMatchingPipeline env normalizedQuery kws options =
     (let hasData = getStats_totalQuestions (dbManager env) > 0
      in if hasData then
           let exactResult = exactMatch normalizedQuery (dbManager env);
               events1 = [Evaluated 1 exactResult]
           in (case (if meets exactResult (minConfidence options) then exactResult else None) of
                 Some m \<Rightarrow> (Found m 1 None, events1)
               | None \<Rightarrow>
                   let keywordResult = keywordMatch kws (dbManager env);
                       events2 = events1 @ [Evaluated 2 keywordResult]
                   in (case (if meets keywordResult (minConfidence options)
                             then keywordResult else None) of
                         Some m \<Rightarrow> (Found m 2 None, events2)
                       | None \<Rightarrow>
                           fuzzy_tier env normalizedQuery kws options
                             (gather_candidates (dbManager env) kws) events2))
         else ai_tier env kws options False [] [])"

definition preprocessQuery :: "string \<Rightarrow> string \<times> keyword list" where
  "preprocessQuery q = (normalizeForMatching q, extractKeywords q)"

definition generateCacheKey :: "environment \<Rightarrow> string \<Rightarrow> string" where
  "generateCacheKey env q = sha256 env q"

text \<open>
  \<open>findAnswer\<close> on the engine's cache, with the clock readings of the cache lookup
  (\<open>t_get\<close>) and of the cache insertion (\<open>t_set\<close>): the response, the cache
  afterwards, and the tiers evaluated.
\<close>

definition findAnswer ::
  "environment \<Rightarrow> response LRUCache \<Rightarrow> string \<Rightarrow> findAnswerOptions \<Rightarrow> int \<Rightarrow> int
     \<Rightarrow> response \<times> response LRUCache \<times> tier_event list" where
  "findAnswer env queryCache q options t_get t_set =
     (case validateQuery q of
        Some error \<Rightarrow> (handleError error, queryCache, [])
      | None \<Rightarrow>
          let opts = default_options options q;
              looked = (if useCache opts then LRUCache_get queryCache (generateCacheKey env q) t_get
                        else (None, queryCache))
          in (case fst looked of
                Some cachedResult \<Rightarrow> (cachedResult, snd looked, [])
              | None \<Rightarrow>
                  let pre = preprocessQuery q;
                      run = runMatchingPipeline env (fst pre) (snd pre) opts;
                      result = fst run;
                      cache' = (if success result \<and> response_match result \<noteq> None \<and> useCache opts
                                then LRUCache_set (snd looked) (generateCacheKey env q) result t_set
                                else snd looked)
                  in (result, cache', snd run)))"

subsection \<open>Reading the instrumentation\<close>



subsection \<open>A store of one question, for examples\<close>

definition stored_java_8 :: question where
  "stored_java_8 =
     \<lparr>qid = ''q1'', original_question = ''Java 8'', original_answer = ''x'',
      normalizedQuestion = ''java 8'', processed_keywords = []\<rparr>"

text \<open>The store holds the one question; the remote service never answers.\<close>

definition one_question_env :: environment where
  "one_question_env =
     \<lparr>dbManager =
        \<lparr>index_normalizedQuestion_get = (\<lambda>t. if t = ''java 8'' then Some stored_java_8 else None),
         index_keywords_getAll = (\<lambda>k. []),
         store_getAll = [stored_java_8]\<rparr>,
      ai_query = (\<lambda>proxy q kws candidates. None),
      sha256 = (\<lambda>s. s)\<rparr>"


definition options_with_minConfidence :: "real \<Rightarrow> findAnswerOptions" where
  "options_with_minConfidence c =
     \<lparr>opt_minConfidence = Some c, opt_fuzzyEnabled = None, opt_partialEnabled = None,
      opt_useCache = None, opt_aiEnabled = None, opt_aiProxyUrl = None\<rparr>"

subsection \<open>Predicates on the extractor's output and state\<close>

text \<open>An importance is in range when it is a number between the threshold \<open>0.1\<close> and \<open>1\<close>.\<close>

definition importance_in_range :: "jsnum \<Rightarrow> bool" where
  "importance_in_range i = (\<exists>r. i = Num r \<and> 0.1 \<le> r \<and> r \<le> 1)"

text \<open>A word-frequency object all of whose own properties are positive counts.\<close>

definition all_counts :: "(string, property) jsmap \<Rightarrow> bool" where
  "all_counts fq = (\<forall>p \<in> set fq. \<exists>n. snd p = Count n \<and> 1 \<le> n)"

section \<open>Properties of the query cache\<close>

lemma map_of_Map_delete: "map_of (Map_delete m k) = (map_of m)(k := None)"
  by (induction m) (auto simp: Map_delete_def)

lemma map_of_Map_set: "map_of (Map_set m k v) = (map_of m)(k \<mapsto> v)"
  by (induction m) auto



lemma keys_Map_delete: "map fst (Map_delete m k) = removeAll k (map fst m)"
  by (induction m) (auto simp: Map_delete_def)

lemma Map_set_absent: "map_of m k = None \<Longrightarrow> Map_set m k v = m @ [(k, v)]"
  by (induction m) (auto split: if_splits)

lemma length_Map_delete_present:
  "distinct (map fst m) \<Longrightarrow> map_of m k \<noteq> None \<Longrightarrow> Suc (length (Map_delete m k)) = length m"
proof (induction m)
  case Nil
  then show ?case by simp
next
  case (Cons p ps)
  show ?case
  proof (cases "fst p = k")
    case True
    with Cons.prems have "k \<notin> fst ` set ps" by auto
    then have "Map_delete ps k = ps"
      by (induction ps) (auto simp: Map_delete_def)
    with True show ?thesis by (simp add: Map_delete_def)
  next
    case False
    with Cons show ?thesis by (auto simp: Map_delete_def)
  qed
qed

lemma Map_ok_delete: "Map_ok m \<Longrightarrow> Map_ok (Map_delete m k)"
  by (simp add: Map_ok_def keys_Map_delete distinct_removeAll)

lemma keys_Map_set: "fst ` set (Map_set m k v) = insert k (fst ` set m)"
  by (induction m) auto

lemma Map_ok_set: "Map_ok m \<Longrightarrow> Map_ok (Map_set m k v)"
  unfolding Map_ok_def
proof (induction m)
  case Nil
  then show ?case by simp
next
  case (Cons p ps)
  then show ?case by (auto simp: keys_Map_set)
qed

text \<open>Every operation keeps the keys of the underlying \<^verbatim>\<open>Map\<close> distinct.\<close>

lemma Map_ok_LRUCache_set: "Map_ok (cache c) \<Longrightarrow> Map_ok (cache (LRUCache_set c k v now))"
  by (auto simp: LRUCache_set_def Let_def Map_ok_set Map_ok_delete split: option.splits)

lemma Map_ok_LRUCache_get: "Map_ok (cache c) \<Longrightarrow> Map_ok (cache (snd (LRUCache_get c k now)))"
  by (auto simp: LRUCache_get_def Map_ok_set Map_ok_delete split: option.splits)

lemma Map_ok_apply: "Map_ok (cache c) \<Longrightarrow> Map_ok (cache (apply_cache_op c x))"
proof (cases x)
  case Clear
  then show ?thesis by (simp add: LRUCache_clear_def Map_ok_def)
qed (simp_all add: Map_ok_LRUCache_set Map_ok_LRUCache_get)

lemma Map_ok_run: "Map_ok (cache c) \<Longrightarrow> Map_ok (cache (run_cache_ops c ops))"
  by (induction ops arbitrary: c) (simp_all add: Map_ok_apply)

text \<open>Configuration never changes.\<close>

lemma apply_cache_op_config [simp]:
  "maxSize (apply_cache_op c x) = maxSize c" "ttl (apply_cache_op c x) = ttl c"
  by (cases x; simp add: LRUCache_get_def LRUCache_set_def LRUCache_clear_def Let_def
        split: option.splits)+

lemma run_cache_ops_config [simp]:
  "maxSize (run_cache_ops c ops) = maxSize c" "ttl (run_cache_ops c ops) = ttl c"
  by (induction ops arbitrary: c) simp_all

subsection \<open>Capacity\<close>





subsection \<open>An entry stays until it expires, is evicted or is overwritten\<close>



lemma LRUCache_set_stores:
  "map_of (cache (LRUCache_set c k v now)) k = Some \<lparr>val = v, timestamp = now\<rparr>"
  by (simp add: LRUCache_set_def Let_def map_of_Map_set)





subsection \<open>Overwriting a key at capacity\<close>

text \<open>
  Claim C10. When \<^verbatim>\<open>set\<close> is called with a key that is present while the size equals
  \<open>maxSize\<close>, the entry of that key is replaced (and moved to the end), every other
  entry stays, in its order and with its value and timestamp, and the size is still
  \<open>maxSize\<close>.
\<close>

theorem LRUCache_set_present_at_capacity:
  assumes "Map_ok (cache c)" and "Map_has (cache c) k" and "int (LRUCache_size c) = maxSize c"
  shows "cache (LRUCache_set c k v now) =
           Map_delete (cache c) k @ [(k, \<lparr>val = v, timestamp = now\<rparr>)] \<and>
         Map_get (cache (LRUCache_set c k v now)) k = Some \<lparr>val = v, timestamp = now\<rparr> \<and>
         (\<forall>k'. k' \<noteq> k \<longrightarrow>
            Map_get (cache (LRUCache_set c k v now)) k' = Map_get (cache c) k') \<and>
         int (LRUCache_size (LRUCache_set c k v now)) = maxSize c"
proof -
  have len: "Suc (length (Map_delete (cache c) k)) = length (cache c)"
    using assms(1,2) by (intro length_Map_delete_present) (simp_all add: Map_ok_def Map_has_def)
  then have small: "\<not> maxSize c \<le> int (Map_size (Map_delete (cache c) k))"
    using assms(3) by (simp add: LRUCache_size_def Map_size_def)
  have absent: "map_of (Map_delete (cache c) k) k = None"
    by (simp add: map_of_Map_delete)
  have eq: "cache (LRUCache_set c k v now) =
      Map_delete (cache c) k @ [(k, \<lparr>val = v, timestamp = now\<rparr>)]"
    using assms(2) small Map_set_absent [OF absent]
    by (simp add: LRUCache_set_def Let_def)
  have "int (LRUCache_size (LRUCache_set c k v now)) = maxSize c"
    using eq len assms(3) by (simp add: LRUCache_size_def Map_size_def)
  moreover have "\<forall>k'. k' \<noteq> k \<longrightarrow>
      Map_get (cache (LRUCache_set c k v now)) k' = Map_get (cache c) k'"
    by (simp add: Map_get_def eq map_of_Map_delete map_add_def split: option.splits)
  moreover have "Map_get (cache (LRUCache_set c k v now)) k = Some \<lparr>val = v, timestamp = now\<rparr>"
    by (simp add: Map_get_def LRUCache_set_stores)
  ultimately show ?thesis using eq by blast
qed

text \<open>
  The theorem at a full cache of capacity 2 holding \<open>a\<close> and \<open>b\<close>: setting \<open>a\<close> again
  keeps \<open>b\<close>.
\<close>

theorem LRUCache_set_present_at_capacity_witness:
  "Map_ok (cache \<lparr>maxSize = 2, ttl = 1000,
       cache = [(''a'', \<lparr>val = (1::nat), timestamp = 0\<rparr>), (''b'', \<lparr>val = 2, timestamp = 1\<rparr>)]\<rparr>) \<and>
   Map_has (cache \<lparr>maxSize = 2, ttl = 1000,
       cache = [(''a'', \<lparr>val = (1::nat), timestamp = 0\<rparr>), (''b'', \<lparr>val = 2, timestamp = 1\<rparr>)]\<rparr>) ''a'' \<and>
   int (LRUCache_size \<lparr>maxSize = 2, ttl = 1000,
       cache = [(''a'', \<lparr>val = (1::nat), timestamp = 0\<rparr>), (''b'', \<lparr>val = 2, timestamp = 1\<rparr>)]\<rparr>) = 2 \<and>
   cache (LRUCache_set \<lparr>maxSize = 2, ttl = 1000,
       cache = [(''a'', \<lparr>val = (1::nat), timestamp = 0\<rparr>), (''b'', \<lparr>val = 2, timestamp = 1\<rparr>)]\<rparr>
       ''a'' 7 9) =
     [(''b'', \<lparr>val = 2, timestamp = 1\<rparr>), (''a'', \<lparr>val = 7, timestamp = 9\<rparr>)]"
proof -
  let ?c = "\<lparr>maxSize = 2, ttl = 1000,
       cache = [(''a'', \<lparr>val = (1::nat), timestamp = 0\<rparr>), (''b'', \<lparr>val = 2, timestamp = 1\<rparr>)]\<rparr>"
  have a: "Map_ok (cache ?c)" by (simp add: Map_ok_def)
  have b: "Map_has (cache ?c) ''a''" by (simp add: Map_has_def)
  have c: "int (LRUCache_size ?c) = maxSize ?c" by (simp add: LRUCache_size_def Map_size_def)
  from LRUCache_set_present_at_capacity [OF a b c, of 7 9]
  have "cache (LRUCache_set ?c ''a'' 7 9) =
      Map_delete (cache ?c) ''a'' @ [(''a'', \<lparr>val = 7, timestamp = 9\<rparr>)]"
    by blast
  then have "cache (LRUCache_set ?c ''a'' 7 9) =
      [(''b'', \<lparr>val = 2, timestamp = 1\<rparr>), (''a'', \<lparr>val = 7, timestamp = 9\<rparr>)]"
    by (simp add: Map_delete_def)
  with a b c show ?thesis by simp
qed

section \<open>Properties of the confidence calculator\<close>

lemma scaleScore_mono:
  "mn \<le> mx \<Longrightarrow> r1 \<le> r2 \<Longrightarrow> scaleScore r1 mn mx \<le> scaleScore r2 mn mx"
  by (simp add: scaleScore_def mult_right_mono)

lemma clamp_mono: "(a::real) \<le> b \<Longrightarrow> max 0 (min 1 a) \<le> max 0 (min 1 b)"
  by (simp add: max_def min_def)

text \<open>
  Claim C2. For a fixed match type and a fixed context, \<open>calculateConfidence\<close> is
  monotonic non-decreasing in the raw score; for the match type \<open>exact\<close> the result is
  the constant \<open>1.0\<close> whatever the raw score; and the result lies in \<open>[0, 1]\<close>.
\<close>

theorem calculateConfidence_monotone_clamped:
  assumes "rawScore1 < rawScore2"
  shows "calculateConfidence mt rawScore1 ctx \<le> calculateConfidence mt rawScore2 ctx \<and>
         calculateConfidence EXACT rawScore1 ctx = CONFIDENCE_THRESHOLDS_EXACT \<and>
         CONFIDENCE_THRESHOLDS_EXACT = 1 \<and>
         0 \<le> calculateConfidence mt rawScore1 ctx \<and> calculateConfidence mt rawScore1 ctx \<le> 1"
proof -
  have le: "rawScore1 \<le> rawScore2" using assms by simp
  have k: "scaleScore rawScore1 KEYWORD_MIN_CONFIDENCE KEYWORD_MAX_CONFIDENCE
        \<le> scaleScore rawScore2 KEYWORD_MIN_CONFIDENCE KEYWORD_MAX_CONFIDENCE"
    by (rule scaleScore_mono [OF _ le]) (simp add: KEYWORD_MIN_CONFIDENCE_def KEYWORD_MAX_CONFIDENCE_def)
  have f: "scaleScore rawScore1 FUZZY_MIN_CONFIDENCE FUZZY_MAX_CONFIDENCE
        \<le> scaleScore rawScore2 FUZZY_MIN_CONFIDENCE FUZZY_MAX_CONFIDENCE"
    by (rule scaleScore_mono [OF _ le]) (simp add: FUZZY_MIN_CONFIDENCE_def FUZZY_MAX_CONFIDENCE_def)
  have p: "scaleScore rawScore1 PARTIAL_MIN_CONFIDENCE PARTIAL_MAX_CONFIDENCE
        \<le> scaleScore rawScore2 PARTIAL_MIN_CONFIDENCE PARTIAL_MAX_CONFIDENCE"
    by (rule scaleScore_mono [OF _ le]) (simp add: PARTIAL_MIN_CONFIDENCE_def PARTIAL_MAX_CONFIDENCE_def)
  have mono: "calculateConfidence mt rawScore1 ctx \<le> calculateConfidence mt rawScore2 ctx"
  proof (cases mt)
    case EXACT
    then show ?thesis by (simp add: calculateConfidence_def)
  next
    case KEYWORD
    show ?thesis
      unfolding calculateConfidence_def Let_def KEYWORD matchType.case
      by (rule clamp_mono) (use k in \<open>auto simp: min_def\<close>)
  next
    case FUZZY
    show ?thesis
      unfolding calculateConfidence_def Let_def FUZZY matchType.case
      by (rule clamp_mono) (use f in auto)
  next
    case PARTIAL
    show ?thesis
      unfolding calculateConfidence_def Let_def PARTIAL matchType.case
      by (rule clamp_mono) (use p in auto)
  next
    case AI
    show ?thesis
      unfolding calculateConfidence_def Let_def AI matchType.case
      by (rule clamp_mono) (rule le)
  next
    case NONE
    then show ?thesis by (simp add: calculateConfidence_def)
  qed
  have exact: "calculateConfidence EXACT rawScore1 ctx = CONFIDENCE_THRESHOLDS_EXACT"
    by (simp add: calculateConfidence_def CONFIDENCE_THRESHOLDS_EXACT_def)
  have range: "0 \<le> calculateConfidence mt rawScore1 ctx \<and> calculateConfidence mt rawScore1 ctx \<le> 1"
    by (simp add: calculateConfidence_def Let_def)
  from mono exact range show ?thesis
    by (simp add: CONFIDENCE_THRESHOLDS_EXACT_def)
qed

text \<open>
  The theorem at the keyword type with raw scores \<open>0.8 < 0.9\<close>: the confidences are
  \<open>0.91\<close> and \<open>0.93\<close>.
\<close>

theorem calculateConfidence_monotone_clamped_witness:
  "(0.8::real) < 0.9 \<and>
   calculateConfidence KEYWORD 0.8 \<lparr>queryLength = 4, questionLength = 5\<rparr> = 0.91 \<and>
   calculateConfidence KEYWORD 0.9 \<lparr>queryLength = 4, questionLength = 5\<rparr> = 0.93 \<and>
   calculateConfidence KEYWORD 0.8 \<lparr>queryLength = 4, questionLength = 5\<rparr>
     \<le> calculateConfidence KEYWORD 0.9 \<lparr>queryLength = 4, questionLength = 5\<rparr>"
proof -
  have h: "(0.8::real) < 0.9" by simp
  have a: "calculateConfidence KEYWORD 0.8 \<lparr>queryLength = 4, questionLength = 5\<rparr> = 0.91"
    by (simp add: calculateConfidence_def scaleScore_def KEYWORD_MIN_CONFIDENCE_def
          KEYWORD_MAX_CONFIDENCE_def)
  have b: "calculateConfidence KEYWORD 0.9 \<lparr>queryLength = 4, questionLength = 5\<rparr> = 0.93"
    by (simp add: calculateConfidence_def scaleScore_def KEYWORD_MIN_CONFIDENCE_def
          KEYWORD_MAX_CONFIDENCE_def)
  from calculateConfidence_monotone_clamped [OF h, of KEYWORD "\<lparr>queryLength = 4, questionLength = 5\<rparr>"]
  have "calculateConfidence KEYWORD 0.8 \<lparr>queryLength = 4, questionLength = 5\<rparr>
     \<le> calculateConfidence KEYWORD 0.9 \<lparr>queryLength = 4, questionLength = 5\<rparr>"
    by blast
  with h a b show ?thesis by blast
qed

section \<open>Properties of the keyword matcher\<close>

text \<open>
  Claim C1 at a concrete input. The query keywords are the single keyword \<open>bar\<close> of
  importance \<open>1\<close>, and the store answers the keyword lookup with one question whose
  keywords are the same. The Jaccard similarity is \<open>1\<close>, the importance boost is \<open>1\<close>,
  and the returned raw score is \<open>1 * (1 + 1 * 0.2) = 1.2\<close>, above \<open>1\<close>; the confidence
  computed from it, \<open>0.99\<close>, is above \<open>KEYWORD_MAX_CONFIDENCE\<close>.
\<close>

theorem keywordMatch_rawScore_above_one:
  "map_option (\<lambda>m. (rawScore m, confidence m))
     (keywordMatch [\<lparr>word = ''bar'', importance = Num 1, ktype = COMMON\<rparr>]
        \<lparr>index_normalizedQuestion_get = (\<lambda>t. None),
         index_keywords_getAll = (\<lambda>k. if k = ''bar''
            then [\<lparr>qid = ''q1'', original_question = ''bar foo foo foo'', original_answer = ''a'',
                   normalizedQuestion = ''bar foo foo foo'',
                   processed_keywords = [\<lparr>word = ''bar'', importance = Num 1, ktype = COMMON\<rparr>]\<rparr>]
            else []),
         store_getAll = [\<lparr>qid = ''q1'', original_question = ''bar foo foo foo'', original_answer = ''a'',
                   normalizedQuestion = ''bar foo foo foo'',
                   processed_keywords = [\<lparr>word = ''bar'', importance = Num 1, ktype = COMMON\<rparr>]\<rparr>]\<rparr>)
   = Some (6 / 5, 99 / 100) \<and> (1::real) < 6 / 5 \<and> KEYWORD_MAX_CONFIDENCE < 99 / 100"
  by (simp add: keywordMatch_def keywordMatch_step_def getQuestionsByKeywords_def
        getQuestionsByKeyword_def jaccardSimilarity_def calculateImportanceBoost_def
        new_Set_def Set_add_def Set_has_def new_Map_def Map_has_def KEYWORD_MIN_OVERLAP_def
        calculateConfidence_def scaleScore_def KEYWORD_MIN_CONFIDENCE_def
        KEYWORD_MAX_CONFIDENCE_def Let_def)

section \<open>Properties of the text normalizer\<close>

text \<open>
  Claim C4 at a concrete input: \<open>normalize\<close> is not idempotent. The text \<open>50%\<close>
  followed by a space keeps its percent sign the first time (the trailing space hides it
  from the removal of leading and trailing punctuation, and stage 4 trims the space
  afterwards); normalizing the result again removes the percent sign.
\<close>

theorem normalize_twice_differs:
  "normalize ''50% '' default_normalizeOptions = ''50%'' \<and>
   normalize (normalize ''50% '' default_normalizeOptions) default_normalizeOptions = ''50''"
  by code_simp

text \<open>
  Claim C5 at a concrete input: the matching preset returns \<open>dont\<close> for \<open>don't\<close>, not
  \<open>do not\<close>. Stage 2 removes every apostrophe before stage 3 looks for the
  contractions, whose keys all hold an apostrophe.
\<close>

theorem normalizeForMatching_drops_apostrophe:
  "normalizeForMatching ''don't'' = ''dont'' \<and>
   normalizeForMatching ''I don't know'' = ''i dont know''"
  by code_simp

section \<open>Properties of the keyword extractor\<close>

lemma calculateWordImportance_NaN:
  "Math_max_values fq = NaN \<Longrightarrow> calculateWordImportance w ws fq = NaN"
  by (cases "ToNumber (Object_get fq w)") (simp_all add: calculateWordImportance_def Let_def)

lemma phrase_sum_NaN:
  "foldl (\<lambda>sum w. js_add sum NaN) a ps = (if ps = [] then a else NaN)"
proof (induction ps arbitrary: a)
  case Nil
  then show ?case by simp
next
  case (Cons p ps)
  have "js_add a NaN = NaN" by (cases a) simp_all
  with Cons show ?case by (cases ps) simp_all
qed

text \<open>
  Claim C6 at a concrete input. The word \<open>constructor\<close> is a property of
  \<^verbatim>\<open>Object.prototype\<close>, so its entry in the word-frequency object becomes a string that
  is not a numeral; the maximal frequency is then \<^verbatim>\<open>NaN\<close>, every importance is
  \<^verbatim>\<open>NaN\<close>, the test \<^verbatim>\<open>importance < 0.1\<close> is false, and both words are emitted with
  importance \<^verbatim>\<open>NaN\<close>, which is not in \<open>[0, 1]\<close>.
\<close>

theorem extractKeywords_importance_NaN:
  "extractKeywords ''What is a constructor?'' =
     [\<lparr>word = ''what'', importance = NaN, ktype = COMMON\<rparr>,
      \<lparr>word = ''constructor'', importance = NaN, ktype = COMMON\<rparr>]"
proof -
  let ?text = "''What is a constructor?''"
  let ?ws = "[''what'', ''constructor'']"
  let ?fq = "[(''what'', Count 1), (''constructor'', Text)]"
  have ws: "filter (\<lambda>w. length w \<ge> MIN_KEYWORD_LENGTH)
              (split_whitespace (normalizeForKeywords ?text)) = ?ws"
    by code_simp
  have fq: "count_words ?ws = ?fq"
    by code_simp
  have ow: "split_whitespace ?text = [''What'', ''is'', ''a'', ''constructor?'']"
    by code_simp
  have mx: "Math_max_values ?fq = NaN"
    by (simp add: Math_max_values_def)
  have imp: "\<And>w. calculateWordImportance w ?ws ?fq = NaN"
    by (rule calculateWordImportance_NaN [OF mx])
  have s1: "isStopword ''what'' = False" "isStopword ''constructor'' = False"
    by code_simp+
  have t1: "classifyKeywordType ''what'' ?text ''What'' = COMMON"
    by code_simp
  have t2: "classifyKeywordType ''constructor'' ?text ''is'' = COMMON"
    by code_simp
  have k1: "single_keyword ?text [''What'', ''is'', ''a'', ''constructor?''] ?ws ?fq (''what'', 0)
      = [\<lparr>word = ''what'', importance = NaN, ktype = COMMON\<rparr>]"
    unfolding single_keyword_def Let_def fst_conv snd_conv imp
    by (simp add: s1 t1 MIN_KEYWORD_LENGTH_def MAX_KEYWORD_LENGTH_def)
  have k2: "single_keyword ?text [''What'', ''is'', ''a'', ''constructor?''] ?ws ?fq (''constructor'', 1)
      = [\<lparr>word = ''constructor'', importance = NaN, ktype = COMMON\<rparr>]"
    unfolding single_keyword_def Let_def fst_conv snd_conv imp
    by (simp add: s1 t2 MIN_KEYWORD_LENGTH_def MAX_KEYWORD_LENGTH_def)
  have ph: "\<And>p. phrase_keyword ?ws ?fq p = []"
    unfolding phrase_keyword_def Let_def imp phrase_sum_NaN
    by (simp add: split_space_def)
  have singles: "concat (map (single_keyword ?text [''What'', ''is'', ''a'', ''constructor?''] ?ws ?fq)
      (zip ?ws [0 ..< length ?ws])) =
      [\<lparr>word = ''what'', importance = NaN, ktype = COMMON\<rparr>,
       \<lparr>word = ''constructor'', importance = NaN, ktype = COMMON\<rparr>]"
  proof -
    have "zip ?ws [0 ..< length ?ws] = [(''what'', 0), (''constructor'', 1)]"
      by (simp add: upt_rec)
    then show ?thesis by (simp only: list.map concat.simps k1 k2 append.simps)
  qed
  have phrases: "concat (map (phrase_keyword ?ws ?fq) (extractNGrams ?ws 2 @ extractNGrams ?ws 3)) = []"
    using ph by simp
  have sorted: "sort_by_importance
      [\<lparr>word = ''what'', importance = NaN, ktype = COMMON\<rparr>,
       \<lparr>word = ''constructor'', importance = NaN, ktype = COMMON\<rparr>] =
      [\<lparr>word = ''what'', importance = NaN, ktype = COMMON\<rparr>,
       \<lparr>word = ''constructor'', importance = NaN, ktype = COMMON\<rparr>]"
    by (simp add: sort_by_importance_def before_or_equal_def)
  show ?thesis
    unfolding extractKeywords_def extractKeywords_with_def Let_def ws fq ow singles phrases
      append_Nil2
    by (simp add: sorted Set_has_def Set_add_def MAX_KEYWORDS_def)
qed

section \<open>Properties of the question classifier\<close>




lemma ratio_ge_zero: "0 \<le> real (length (filter P xs)) / real (length xs)"
  by simp









section \<open>Properties of the matching engine\<close>







text \<open>
  Claim C9. A query whose trimmed length is below the minimum query length is answered
  with the error response of code \<open>QUERY_EMPTY\<close> (\<^verbatim>\<open>success: false\<close>); no tier is
  evaluated and the cache is unchanged.
\<close>

theorem findAnswer_rejects_short_query:
  assumes "length (trim q) < MIN_QUERY_LENGTH"
  shows "findAnswer env queryCache q options t_get t_set =
           (Failed QUERY_EMPTY ''Please select some text to search.''
              (if q = [] then []
               else [(''length'', length (trim q)), (''minLength'', MIN_QUERY_LENGTH)]),
            queryCache, []) \<and>
         \<not> success (fst (findAnswer env queryCache q options t_get t_set))"
  using assms
  by (auto simp: findAnswer_def validateQuery_def handleError_def Let_def)

text \<open>The theorem at the query \<open>ab\<close>, of length 2.\<close>

theorem findAnswer_rejects_short_query_witness:
  "length (trim ''ab'') < MIN_QUERY_LENGTH \<and>
   findAnswer one_question_env (new_LRUCache 100 3600000) ''ab'' (options_with_minConfidence 0.5) 0 0 =
     (Failed QUERY_EMPTY ''Please select some text to search.'' [(''length'', 2), (''minLength'', 3)],
      new_LRUCache 100 3600000, [])"
proof -
  have h: "length (trim ''ab'') < MIN_QUERY_LENGTH" by code_simp
  have t: "length (trim ''ab'') = 2" by code_simp
  from findAnswer_rejects_short_query [OF h, of one_question_env "new_LRUCache 100 3600000"
      "options_with_minConfidence 0.5" 0 0]
  have "findAnswer one_question_env (new_LRUCache 100 3600000) ''ab'' (options_with_minConfidence 0.5) 0 0 =
     (Failed QUERY_EMPTY ''Please select some text to search.'' [(''length'', 2), (''minLength'', 3)],
      new_LRUCache 100 3600000, [])"
    by (simp add: t MIN_QUERY_LENGTH_def)
  with h show ?thesis by simp
qed

subsection \<open>The query \<open>java\<close> on the store of one question\<close>






section \<open>Further properties of the text normalizer\<close>

lemma set_rx_replace_from: "set (rx_replace_from re rep pre s) \<subseteq> set rep \<union> set s"
proof (induction re rep pre s rule: rx_replace_from.induct)
  case (1 re rep pre)
  then show ?case by (auto split: option.splits)
next
  case (2 re rep pre x xs)
  show ?case
  proof (cases "rx_match_at re pre (x # xs)")
    case None
    with 2 show ?thesis by auto
  next
    case (Some k)
    show ?thesis
    proof (cases k)
      case 0
      with Some 2 show ?thesis by auto
    next
      case (Suc n)
      with Some 2 have "set (rx_replace_from re rep (rev (take n xs) @ x # pre) (drop n xs))
          \<subseteq> set rep \<union> set (drop n xs)"
        by simp
      moreover have "set (drop n xs) \<subseteq> set xs" by (rule set_drop_subset)
      ultimately show ?thesis using Some Suc by auto
    qed
  qed
qed

lemma set_replace_all: "set (replace_all re rep s) \<subseteq> set rep \<union> set s"
  by (simp add: replace_all_def set_rx_replace_from)

lemma remove_class: "rx_replace_from (rx [[One P]]) [] pre s = filter (\<lambda>c. \<not> P c) s"
  by (induction s arbitrary: pre)
     (simp_all add: rx_match_at_def rx_def class_matches_def)

lemma toLowerCase_char_apostrophe: "toLowerCase_char c = CHR 0x27 \<Longrightarrow> c = CHR 0x27"
  unfolding toLowerCase_char_def uppercase_letters_def lowercase_letters_def
  by (simp split: if_splits)

lemma apostrophe_toLowerCase: "CHR 0x27 \<in> set (toLowerCase s) \<longleftrightarrow> CHR 0x27 \<in> set s"
proof
  assume "CHR 0x27 \<in> set (toLowerCase s)"
  then obtain c where "c \<in> set s" "toLowerCase_char c = CHR 0x27"
    by (auto simp: toLowerCase_def)
  then show "CHR 0x27 \<in> set s"
    using toLowerCase_char_apostrophe [of c] by simp
next
  assume "CHR 0x27 \<in> set s"
  moreover have "toLowerCase_char (CHR 0x27) = CHR 0x27" by code_simp
  ultimately show "CHR 0x27 \<in> set (toLowerCase s)"
    by (force simp: toLowerCase_def)
qed

lemma word_with_apostrophe_no_match:
  assumes "CHR 0x27 \<in> set w" and "CHR 0x27 \<notin> set post"
  shows "rx_match_at (rx_i [[WordB, Lit w, WordB]]) pre post = None"
proof -
  have "\<not> literal_matches True w post"
  proof
    assume "literal_matches True w post"
    then have "toLowerCase (take (length w) post) = toLowerCase w"
      by (simp add: literal_matches_def)
    with assms(1) have "CHR 0x27 \<in> set (toLowerCase (take (length w) post))"
      by (simp add: apostrophe_toLowerCase)
    then have "CHR 0x27 \<in> set (take (length w) post)"
      by (simp add: apostrophe_toLowerCase)
    then have "CHR 0x27 \<in> set post" by (rule in_set_takeD)
    with assms(2) show False by simp
  qed
  then show ?thesis
    by (simp add: rx_match_at_def rx_i_def)
qed

lemma word_with_apostrophe_unchanged:
  assumes "CHR 0x27 \<in> set w" and "CHR 0x27 \<notin> set s"
  shows "rx_replace_from (rx_i [[WordB, Lit w, WordB]]) r pre s = s"
  using assms(2)
proof (induction s arbitrary: pre)
  case Nil
  then show ?case by (simp add: word_with_apostrophe_no_match [OF assms(1)])
next
  case (Cons x xs)
  then show ?case by (simp add: word_with_apostrophe_no_match [OF assms(1)])
qed

lemma replace_words_unchanged:
  assumes "\<forall>e \<in> set entries. CHR 0x27 \<in> set (fst e)" and "CHR 0x27 \<notin> set s"
  shows "replace_words entries s = s"
proof -
  have "foldl (\<lambda>t (w, r). replace_all (rx_i [[WordB, Lit w, WordB]]) r t) s entries = s"
    using assms
  proof (induction entries)
    case Nil
    then show ?case by simp
  next
    case (Cons e es)
    obtain w r where e: "e = (w, r)" by (cases e)
    with Cons.prems have "replace_all (rx_i [[WordB, Lit w, WordB]]) r s = s"
      by (simp add: replace_all_def word_with_apostrophe_unchanged)
    with Cons e show ?case by simp
  qed
  then show ?thesis by (simp add: replace_words_def)
qed

lemma contractions_have_apostrophe: "\<forall>e \<in> set contractions. CHR 0x27 \<in> set (fst e)"
  by (simp add: contractions_def)

lemma normalizePunctuation_no_apostrophe: "CHR 0x27 \<notin> set (normalizePunctuation s options)"
proof -
  define t3 where "t3 = (let text1 = replace_all (rx [[Bol, Plus not_word_space], [Plus not_word_space, Eol]]) [] s;
          text2 = replace_all (rx [[One (one_of ''.,;:'')]]) '' '' text1
          in (if \<not> preserveQuestionMarks options
                   then replace_all (rx [[One (one_of ''?!'')]]) '' '' text2 else text2))"
  define t4 where "t4 = replace_all (rx [[One (one_of [CHR 0x22, CHR 0x27, CHR 0x60])]]) [] t3"
  have a4: "CHR 0x27 \<notin> set t4"
    by (simp add: t4_def replace_all_def remove_class one_of_def)
  define t5 where "t5 = replace_all (rx [[One (one_of ''(){}[]'')]]) '' '' t4"
  define t6 where "t6 = replace_all (rx [[One (one_of (''<>|'' @ [CHR 0x5C] @ ''/~^*+=_''))]]) '' '' t5"
  define t7 where "t7 = replace_all (rx [[One is_space, Plus (one_of ''-''), One is_space]]) '' '' t6"
  define t8 where "t8 = replace_all (rx [[One is_space, Plus (one_of ''-'')]]) '' '' t7"
  define t9 where "t9 = replace_all (rx [[Plus (one_of ''-''), One is_space]]) '' '' t8"
  have step: "CHR 0x27 \<notin> set (replace_all re '' '' t)" if "CHR 0x27 \<notin> set t" for re t
    using set_replace_all [of re "'' ''" t] that by auto
  have "CHR 0x27 \<notin> set t9"
    unfolding t9_def t8_def t7_def t6_def t5_def by (intro step a4)
  moreover have "normalizePunctuation s options = t9"
    unfolding normalizePunctuation_def Let_def t9_def t8_def t7_def t6_def t5_def t4_def t3_def
    by simp
  ultimately show ?thesis by simp
qed

lemma normalizePunctuation_reads_one_option:
  "preserveQuestionMarks o1 = preserveQuestionMarks o2 \<Longrightarrow>
   normalizePunctuation s o1 = normalizePunctuation s o2"
  by (simp add: normalizePunctuation_def)

text \<open>
  Behind claim C5: every key of the contraction dictionary holds an apostrophe and the
  output of stage 2 holds none, so stage 3 never expands a contraction; the matching
  preset and the keyword preset return the same text for every input.
\<close>

lemma normalizeForMatching_eq_normalizeForKeywords:
  "normalizeForMatching s = normalizeForKeywords s"
proof -
  let ?m = "\<lparr>lowercase = True, expandContractions = True, normalizeNumbers = False,
             preserveQuestionMarks = False\<rparr>"
  let ?k = "\<lparr>lowercase = True, expandContractions = False, normalizeNumbers = False,
             preserveQuestionMarks = False\<rparr>"
  have p: "normalizePunctuation t ?m = normalizePunctuation t ?k" for t
    by (rule normalizePunctuation_reads_one_option) simp
  have "transformText (normalizePunctuation t ?k) ?m = transformText (normalizePunctuation t ?k) ?k"
    for t
    by (simp add: transformText_def normalizePunctuation_no_apostrophe
          replace_words_unchanged [OF contractions_have_apostrophe])
  then show ?thesis
    by (simp add: normalizeForMatching_def normalizeForKeywords_def normalize_def p)
qed

section \<open>Further properties of the keyword extractor\<close>

lemma js_min_one: "js_min x (Num 1) = Num r \<Longrightarrow> r \<le> 1"
  by (cases x) auto

lemma isStopword_question_word: "Set_has QUESTION_WORDS w \<Longrightarrow> \<not> isStopword w"
  by (simp add: isStopword_def)

lemma single_keyword_emitted:
  assumes "kw \<in> set (single_keyword ot ow ws fq wi)"
  shows "word kw = fst wi \<and> \<not> isStopword (fst wi) \<and>
         importance kw = calculateWordImportance (fst wi) ws fq \<and>
         (importance kw = NaN \<or> importance_in_range (importance kw))"
proof -
  let ?imp = "calculateWordImportance (fst wi) ws fq"
  from assms have a: "\<not> (isStopword (fst wi) \<and> \<not> Set_has QUESTION_WORDS (fst wi))"
    and b: "\<not> js_lt ?imp (Num IMPORTANCE_THRESHOLD)"
    and c: "word kw = fst wi" "importance kw = ?imp"
    by (auto simp: single_keyword_def Let_def split: if_splits)
  from a have s: "\<not> isStopword (fst wi)"
    using isStopword_question_word by blast
  have "?imp = NaN \<or> importance_in_range ?imp"
  proof (cases ?imp)
    case (Num r)
    then have "r \<le> 1"
      by (intro js_min_one [of "js_mul
          (js_mul (js_div (ToNumber (Object_get fq (fst wi))) (Num (real (length ws))))
             (Math_log (js_div (Math_max_values fq) (plus_one (Object_get fq (fst wi))))))
          (Num 10)"])
         (simp add: calculateWordImportance_def Let_def)
    moreover from b Num have "0.1 \<le> r" by (simp add: IMPORTANCE_THRESHOLD_def)
    ultimately show ?thesis using Num by (simp add: importance_in_range_def)
  next
    case NaN
    then show ?thesis by simp
  qed
  with s c show ?thesis by simp
qed

lemma phrase_keyword_emitted:
  assumes "kw \<in> set (phrase_keyword ws fq phrase)"
  shows "word kw = phrase \<and> importance_in_range (importance kw)"
proof -
  define avg where "avg = js_div (foldl (\<lambda>sum w. js_add sum (calculateWordImportance w ws fq))
                      (Num 0) (split_space phrase))
                   (Num (real (length (split_space phrase))))"
  let ?b = "js_min (js_mul avg (Num 1.5)) (Num 1.0)"
  from assms have ge: "js_ge ?b (Num IMPORTANCE_THRESHOLD)"
    and kw: "word kw = phrase" "importance kw = ?b"
    by (auto simp: phrase_keyword_def Let_def avg_def split: if_splits)
  from ge obtain r where r: "?b = Num r" by (cases ?b) auto
  with ge have "0.1 \<le> r" by (simp add: IMPORTANCE_THRESHOLD_def)
  moreover from r have "r \<le> 1" using js_min_one [of "js_mul avg (Num 1.5)" r] by simp
  ultimately show ?thesis using kw r by (simp add: importance_in_range_def)
qed

lemma join_space_has_space: "2 \<le> length xs \<Longrightarrow> CHR '' '' \<in> set (join_space xs)"
proof -
  assume "2 \<le> length xs"
  then obtain a b rest where "xs = a # b # rest"
    by (cases xs; cases "tl xs") auto
  then show ?thesis by simp
qed

lemma extractNGrams_has_space:
  assumes "p \<in> set (extractNGrams ws n)" and "2 \<le> n"
  shows "CHR '' '' \<in> set p"
proof -
  from assms(1) obtain i where i: "i < Suc (length ws) - n" and p: "p = join_space (take n (drop i ws))"
    by (auto simp: extractNGrams_def Let_def split: if_splits)
  from i have "length (take n (drop i ws)) = n" by auto
  with assms(2) p show ?thesis by (simp add: join_space_has_space)
qed

lemma set_insert_sorted: "set (insert_sorted a bs) = insert a (set bs)"
  by (induction bs) auto

lemma set_sort_by_importance: "set (sort_by_importance kws) = set kws"
  by (induction kws) (simp_all add: sort_by_importance_def set_insert_sorted)

lemma set_uniqueKeywords: "set (uniqueKeywords seen kws) \<subseteq> set kws"
  by (induction kws arbitrary: seen) auto

lemma extractKeywords_with_sources:
  assumes "kw \<in> set (extractKeywords_with t n b)"
  shows "\<exists>ws fq. ws = filter (\<lambda>w. length w \<ge> MIN_KEYWORD_LENGTH)
                        (split_whitespace (normalizeForKeywords t)) \<and>
                 fq = count_words ws \<and> ws \<noteq> [] \<and>
           ((\<exists>wi \<in> set (zip ws [0 ..< length ws]).
                kw \<in> set (single_keyword t (split_whitespace t) ws fq wi)) \<or>
            (\<exists>p \<in> set (extractNGrams ws 2 @ extractNGrams ws 3). kw \<in> set (phrase_keyword ws fq p)))"
proof -
  define ws where "ws = filter (\<lambda>w. length w \<ge> MIN_KEYWORD_LENGTH)
                        (split_whitespace (normalizeForKeywords t))"
  define fq where "fq = count_words ws"
  define singles where "singles = concat (map (single_keyword t (split_whitespace t) ws fq)
                                      (zip ws [0 ..< length ws]))"
  define phrases where "phrases = (if b
                            then concat (map (phrase_keyword ws fq)
                                           (extractNGrams ws 2 @ extractNGrams ws 3))
                            else [])"
  from assms have ne: "t \<noteq> []" "ws \<noteq> []"
    by (auto simp: extractKeywords_with_def ws_def Let_def split: if_splits)
  then have "extractKeywords_with t n b =
      take n (uniqueKeywords [] (sort_by_importance (singles @ phrases)))"
    by (simp add: extractKeywords_with_def Let_def ws_def [symmetric] fq_def [symmetric]
          singles_def phrases_def)
  with assms have "kw \<in> set (uniqueKeywords [] (sort_by_importance (singles @ phrases)))"
    by (auto dest: in_set_takeD)
  then have "kw \<in> set singles \<union> set phrases"
    using set_uniqueKeywords [of "[]" "sort_by_importance (singles @ phrases)"]
    by (auto simp: set_sort_by_importance)
  then have "(\<exists>wi \<in> set (zip ws [0 ..< length ws]).
                kw \<in> set (single_keyword t (split_whitespace t) ws fq wi)) \<or>
            (\<exists>p \<in> set (extractNGrams ws 2 @ extractNGrams ws 3). kw \<in> set (phrase_keyword ws fq p))"
    by (auto simp: singles_def phrases_def split: if_splits)
  with ne show ?thesis by (auto simp: ws_def fq_def)
qed

text \<open>
  Behind claim C6, for every text: an emitted keyword has an importance that is
  \<^verbatim>\<open>NaN\<close> or lies in \<open>[0.1, 1]\<close>, and an emitted keyword without a space (a single
  token; a phrase has one) is not a stop word.
\<close>

lemma extractKeywords_emitted:
  assumes "kw \<in> set (extractKeywords_with t n b)"
  shows "(importance kw = NaN \<or> importance_in_range (importance kw)) \<and>
         (CHR '' '' \<notin> set (word kw) \<longrightarrow> \<not> isStopword (word kw))"
proof -
  from extractKeywords_with_sources [OF assms] obtain ws fq where
    src: "(\<exists>wi \<in> set (zip ws [0 ..< length ws]).
                kw \<in> set (single_keyword t (split_whitespace t) ws fq wi)) \<or>
            (\<exists>p \<in> set (extractNGrams ws 2 @ extractNGrams ws 3). kw \<in> set (phrase_keyword ws fq p))"
    by blast
  then show ?thesis
  proof
    assume "\<exists>wi \<in> set (zip ws [0 ..< length ws]).
                kw \<in> set (single_keyword t (split_whitespace t) ws fq wi)"
    then obtain wi where "kw \<in> set (single_keyword t (split_whitespace t) ws fq wi)" by blast
    from single_keyword_emitted [OF this] show ?thesis by metis
  next
    assume "\<exists>p \<in> set (extractNGrams ws 2 @ extractNGrams ws 3). kw \<in> set (phrase_keyword ws fq p)"
    then obtain p where p: "p \<in> set (extractNGrams ws 2) \<union> set (extractNGrams ws 3)"
      and kw: "kw \<in> set (phrase_keyword ws fq p)" by auto
    from p have "CHR '' '' \<in> set p"
      using extractNGrams_has_space [of p ws 2] extractNGrams_has_space [of p ws 3] by auto
    with phrase_keyword_emitted [OF kw] show ?thesis by simp
  qed
qed


lemma set_Map_set: "set (Map_set m k v) \<subseteq> insert (k, v) (set m)"
  by (induction m) auto

lemma count_step:
  assumes "all_counts fq" and "w \<notin> set Object_prototype_keys"
  shows "all_counts (Object_set fq w (or_zero_plus_one (Object_get fq w))) \<and>
         fst ` set (Object_set fq w (or_zero_plus_one (Object_get fq w))) = insert w (fst ` set fq)"
proof -
  have np: "w \<noteq> ''__proto__''"
    using assms(2) by (auto simp: Object_prototype_keys_def)
  have "\<exists>n. or_zero_plus_one (Object_get fq w) = Count n \<and> 1 \<le> n"
  proof (cases "map_of fq w")
    case None
    with assms(2) show ?thesis by (simp add: Object_get_def Map_get_def)
  next
    case (Some v)
    then have "(w, v) \<in> set fq" by (rule map_of_SomeD)
    with assms(1) obtain n where "v = Count n" by (force simp: all_counts_def)
    with Some show ?thesis by (simp add: Object_get_def Map_get_def)
  qed
  then obtain n where n: "or_zero_plus_one (Object_get fq w) = Count n" "1 \<le> n" by blast
  have "all_counts (Map_set fq w (Count n))"
    unfolding all_counts_def
  proof
    fix p assume "p \<in> set (Map_set fq w (Count n))"
    then have "p = (w, Count n) \<or> p \<in> set fq" using set_Map_set [of fq w "Count n"] by auto
    with assms(1) n(2) show "\<exists>n. snd p = Count n \<and> 1 \<le> n"
      by (auto simp: all_counts_def)
  qed
  with np n show ?thesis by (simp add: Object_set_def keys_Map_set)
qed

lemma count_words_from:
  assumes "all_counts fq" and "\<forall>w \<in> set ws. w \<notin> set Object_prototype_keys"
  shows "all_counts (foldl (\<lambda>fq w. Object_set fq w (or_zero_plus_one (Object_get fq w))) fq ws) \<and>
         fst ` set (foldl (\<lambda>fq w. Object_set fq w (or_zero_plus_one (Object_get fq w))) fq ws)
           = fst ` set fq \<union> set ws"
  using assms
proof (induction ws arbitrary: fq)
  case Nil
  then show ?case by simp
next
  case (Cons w ws)
  from count_step [of fq w] Cons.prems
  have s: "all_counts (Object_set fq w (or_zero_plus_one (Object_get fq w)))"
    "fst ` set (Object_set fq w (or_zero_plus_one (Object_get fq w))) = insert w (fst ` set fq)"
    by simp_all
  from Cons.IH [OF s(1)] Cons.prems(2) s(2) show ?case by auto
qed

lemma count_words_counts:
  assumes "\<forall>w \<in> set ws. w \<notin> set Object_prototype_keys"
  shows "all_counts (count_words ws)" and "fst ` set (count_words ws) = set ws"
  using count_words_from [of "[]" ws] assms
  by (simp_all add: count_words_def all_counts_def)

lemma max_fold_counts:
  assumes "\<forall>p \<in> set ps. \<exists>n. snd p = Count n \<and> 1 \<le> n" and "1 \<le> (a::real)"
  shows "\<exists>m. foldl (\<lambda>m p. case (m, ToNumber (snd p)) of
                           (Num a, Num b) \<Rightarrow> Num (max a b)
                         | _ \<Rightarrow> NaN) (Num a) ps = Num m \<and> 1 \<le> m"
  using assms
proof (induction ps arbitrary: a)
  case Nil
  then show ?case by simp
next
  case (Cons p ps)
  then obtain n where n: "snd p = Count n" "1 \<le> n" by auto
  have "1 \<le> max a (real n)" using Cons.prems(2) by simp
  from Cons.IH [OF _ this] Cons.prems(1) n show ?case by simp
qed

lemma Math_max_values_counts:
  assumes "all_counts fq" and "fq \<noteq> []"
  shows "\<exists>m. Math_max_values fq = Num m \<and> 1 \<le> m"
proof -
  from assms obtain p ps where fq: "fq = p # ps" by (cases fq) auto
  with assms(1) obtain n where n: "snd p = Count n" "1 \<le> n" by (auto simp: all_counts_def)
  have "\<forall>q \<in> set ps. \<exists>n. snd q = Count n \<and> 1 \<le> n"
    using assms(1) fq by (auto simp: all_counts_def)
  from max_fold_counts [OF this, of "real n"] n fq show ?thesis
    by (simp add: Math_max_values_def)
qed

lemma calculateWordImportance_number:
  assumes "all_counts fq" and "w \<in> fst ` set fq" and "ws \<noteq> []"
  shows "\<exists>r. calculateWordImportance w ws fq = Num r"
proof -
  from assms(2) have "fq \<noteq> []" by auto
  from Math_max_values_counts [OF assms(1) this] obtain m where
    m: "Math_max_values fq = Num m" "1 \<le> m" by blast
  from assms(2) obtain v where v: "map_of fq w = Some v"
    by (metis map_of_eq_None_iff not_Some_eq)
  then have "(w, v) \<in> set fq" by (rule map_of_SomeD)
  with assms(1) obtain n where n: "v = Count n" by (force simp: all_counts_def)
  have pos: "0 < m / (real n + 1)" using m(2) by simp
  have len: "real (length ws) \<noteq> 0" using assms(3) by simp
  show ?thesis
    using m v n pos len
    by (simp add: calculateWordImportance_def Object_get_def Map_get_def Let_def)
qed

text \<open>
  When no word of the normalized text is a property name of \<^verbatim>\<open>Object.prototype\<close>,
  every emitted importance is a number in \<open>[0.1, 1]\<close>.
\<close>

lemma extractKeywords_importance_bounded:
  assumes "\<forall>w \<in> set (split_whitespace (normalizeForKeywords t)). w \<notin> set Object_prototype_keys"
    and "kw \<in> set (extractKeywords_with t n b)"
  shows "importance_in_range (importance kw)"
proof -
  from extractKeywords_with_sources [OF assms(2)] obtain ws fq where
    ws: "ws = filter (\<lambda>w. length w \<ge> MIN_KEYWORD_LENGTH)
                        (split_whitespace (normalizeForKeywords t))"
    and fq: "fq = count_words ws" and ne: "ws \<noteq> []"
    and src: "(\<exists>wi \<in> set (zip ws [0 ..< length ws]).
                kw \<in> set (single_keyword t (split_whitespace t) ws fq wi)) \<or>
            (\<exists>p \<in> set (extractNGrams ws 2 @ extractNGrams ws 3). kw \<in> set (phrase_keyword ws fq p))"
    by blast
  have clean: "\<forall>w \<in> set ws. w \<notin> set Object_prototype_keys"
    using assms(1) ws by simp
  from src show ?thesis
  proof
    assume "\<exists>wi \<in> set (zip ws [0 ..< length ws]).
                kw \<in> set (single_keyword t (split_whitespace t) ws fq wi)"
    then obtain wi where wi: "wi \<in> set (zip ws [0 ..< length ws])"
      and kw: "kw \<in> set (single_keyword t (split_whitespace t) ws fq wi)" by blast
    from wi have "fst wi \<in> set ws"
      using set_zip_leftD [of "fst wi" "snd wi" ws "[0 ..< length ws]"] by simp
    then have "fst wi \<in> fst ` set fq"
      using count_words_counts(2) [OF clean] fq by simp
    from calculateWordImportance_number [OF _ this ne] count_words_counts(1) [OF clean] fq
    obtain r where "calculateWordImportance (fst wi) ws fq = Num r" by auto
    with single_keyword_emitted [OF kw] show ?thesis by auto
  next
    assume "\<exists>p \<in> set (extractNGrams ws 2 @ extractNGrams ws 3). kw \<in> set (phrase_keyword ws fq p)"
    then obtain p where "kw \<in> set (phrase_keyword ws fq p)" by blast
    from phrase_keyword_emitted [OF this] show ?thesis by simp
  qed
qed

end
